theory Spec2Isabelle
  imports Complex_Main "HOL-Library.Multiset"
begin

section \<open>IoT fan speed controller backend: the two server variants\<close>

text \<open>
  The repository holds one Express server in two variants. The active code of
  \<^verbatim>\<open>src/server.js\<close> is the serverless variant: every route first awaits
  \<^verbatim>\<open>connectToDatabase()\<close>, the read routes then await \<^verbatim>\<open>initializeConfig()\<close>. The
  other file is the variant with the Socket.IO push channel: it connects and calls
  \<^verbatim>\<open>initializeConfig()\<close> once when the module is loaded, and its write routes end
  with \<^verbatim>\<open>io.emit\<close>.

  Both store documents through the mongoose models \<^verbatim>\<open>Data\<close> and \<^verbatim>\<open>Config\<close>. The
  library and the database are not part of the repository. They are modelled by two
  collections (lists of documents in natural order), by a clock that \<^verbatim>\<open>Date.now()\<close>
  reads, and by an environment that says, for every kind of storage operation a
  request awaits, how long it takes and whether it rejects. Each route awaits each
  kind of operation at most once, so one outcome per kind describes a request.
  Requests are handled one at a time: the interleaving of two requests at their
  \<^verbatim>\<open>await\<close> points is not modelled. Documents are modelled by their schema fields
  (\<^verbatim>\<open>_id\<close> and \<^verbatim>\<open>__v\<close> are left out), and what the code writes to the console is
  left out.
\<close>

subsection \<open>Values, documents, the world\<close>

text \<open>
  A value of a parsed JSON body. Numbers are the finite JavaScript numbers, each of
  which is a rational. A field that is absent from the body reads as
  \<^verbatim>\<open>undefined\<close>: \<open>None\<close> in the body map.
\<close>

datatype jsval =
    JNull
  | JBool bool
  | JNum rat
  | JStr string
  | JArr "jsval list"
  | JObj "(string \<times> jsval) list"

type_synonym body = "string \<rightharpoonup> jsval"

text \<open>
  \<^verbatim>\<open>dataSchema\<close> and \<^verbatim>\<open>configSchema\<close>. A path of type \<^verbatim>\<open>Number\<close> holds a number or
  \<^verbatim>\<open>null\<close> (\<open>None\<close>); a \<^verbatim>\<open>Date\<close> is its count of milliseconds.
\<close>

record reading =
  temperature :: "rat option"
  fanSpeed :: "rat option"
  timestamp :: nat

record config =
  threshold :: "rat option"
  lastUpdated :: nat

text \<open>The events of the push channel: \<^verbatim>\<open>data_update\<close> and \<^verbatim>\<open>config_update\<close>.\<close>

datatype event =
    DataUpdate jsval jsval nat
  | ConfigUpdate jsval

record world =
  dataColl :: "reading list"
  configColl :: "config list"
  isConnected :: bool
  clock :: nat
  emitted :: "event list"

text \<open>The stored state: the two collections.\<close>

definition stored :: "world \<Rightarrow> reading list \<times> config list" where
  "stored w = (dataColl w, configColl w)"

subsection \<open>The environment of a request\<close>

datatype storeOp =
    Connect
  | CountDocuments
  | Create
  | Find
  | FindOne
  | FindOneAndUpdate
  | Save

record outcome =
  elapsed :: nat
  fault :: "string option"

type_synonym env = "storeOp \<Rightarrow> outcome"

text \<open>
  Awaiting a storage operation: time passes (the clock never runs backwards), and
  the operation resolves (\<open>None\<close>) or rejects with an error message.
\<close>

definition await :: "env \<Rightarrow> storeOp \<Rightarrow> world \<Rightarrow> string option \<times> world" where
  "await env opn w = (fault (env opn), w\<lparr>clock := clock w + elapsed (env opn)\<rparr>)"

subsection \<open>The schema type Number\<close>

text \<open>
  The library casts every value written to a path of type \<^verbatim>\<open>Number\<close>. \<^verbatim>\<open>null\<close> and
  numbers are kept as they are. What the cast does with a value of another type
  (\<open>Inl\<close> is the message of the CastError it raises) is the library's business
  and a parameter \<open>conv\<close> of the model.
\<close>

type_synonym conv = "jsval \<Rightarrow> string + rat option"

definition castNumber :: "conv \<Rightarrow> jsval \<Rightarrow> string + rat option" where
  "castNumber conv v =
     (case v of
        JNull \<Rightarrow> Inr None
      | JNum n \<Rightarrow> Inr (Some n)
      | _ \<Rightarrow> conv v)"

text \<open>
  An instance of the parameter, for evaluating the model at concrete requests.
  Booleans become 1 and 0, the empty string becomes \<^verbatim>\<open>null\<close>, a string of decimal
  digits becomes its value; arrays and objects are rejected, as the cast of a
  document path rejects them. Every other string is rejected here. That is what
  the library does with a string that is no numeric literal (\<^verbatim>\<open>Number(s)\<close> is
  \<^verbatim>\<open>NaN\<close>); the library also converts literals with a sign, a fraction, an exponent
  or a radix prefix, which no request evaluated below contains. The error message
  is abridged.
\<close>

definition digitValue :: "char \<Rightarrow> nat option" where
  "digitValue c =
     (let n = (of_char c :: nat)
      in if 48 \<le> n \<and> n \<le> 57 then Some (n - 48) else None)"

fun decimalValue :: "nat \<Rightarrow> string \<Rightarrow> nat option" where
  "decimalValue acc [] = Some acc"
| "decimalValue acc (c # cs) =
     (case digitValue c of
        None \<Rightarrow> None
      | Some d \<Rightarrow> decimalValue (10 * acc + d) cs)"

definition castFailed :: "string \<Rightarrow> string" where
  "castFailed shown = ''Cast to Number failed for value '' @ shown"

fun convJs :: conv where
  "convJs (JBool b) = Inr (Some (if b then 1 else 0))"
| "convJs (JStr s) =
     (if s = [] then Inr None
      else case decimalValue 0 s of
             Some n \<Rightarrow> Inr (Some (of_nat n))
           | None \<Rightarrow> Inl (castFailed s))"
| "convJs (JArr vs) = Inl (castFailed ''[array]'')"
| "convJs (JObj kvs) = Inl (castFailed ''[object]'')"
| "convJs JNull = Inr None"
| "convJs (JNum n) = Inr (Some n)"

subsection \<open>The model operations the routes call\<close>

text \<open>\<^verbatim>\<open>Config.countDocuments()\<close>\<close>

definition Config_countDocuments :: "env \<Rightarrow> world \<Rightarrow> (string + nat) \<times> world" where
  "Config_countDocuments env w =
     (case await env CountDocuments w of
        (Some err, w1) \<Rightarrow> (Inl err, w1)
      | (None, w1) \<Rightarrow> (Inr (length (configColl w1)), w1))"

text \<open>
  \<^verbatim>\<open>Config.create({ threshold: t })\<close> for a number \<open>t\<close>: the document takes the
  schema default \<^verbatim>\<open>Date.now\<close> for \<^verbatim>\<open>lastUpdated\<close> when it is built, and is appended
  to the collection when the insert resolves.
\<close>

definition Config_create :: "env \<Rightarrow> rat \<Rightarrow> world \<Rightarrow> (string + config) \<times> world" where
  "Config_create env t w =
     (let doc = \<lparr>threshold = Some t, lastUpdated = clock w\<rparr> in
      case await env Create w of
        (Some err, w1) \<Rightarrow> (Inl err, w1)
      | (None, w1) \<Rightarrow> (Inr doc, w1\<lparr>configColl := configColl w1 @ [doc]\<rparr>))"

text \<open>\<^verbatim>\<open>Config.findOne()\<close>: the first document in natural order, or \<^verbatim>\<open>null\<close>.\<close>

definition Config_findOne :: "env \<Rightarrow> world \<Rightarrow> (string + config option) \<times> world" where
  "Config_findOne env w =
     (case await env FindOne w of
        (Some err, w1) \<Rightarrow> (Inl err, w1)
      | (None, w1) \<Rightarrow>
          (Inr (case configColl w1 of [] \<Rightarrow> None | c # cs \<Rightarrow> Some c), w1))"

text \<open>
  \<^verbatim>\<open>Config.findOneAndUpdate({}, { threshold, lastUpdated: now }, { new: true, upsert: true })\<close>:
  the update is cast to the schema first; the first document is updated in place,
  or, when the collection is empty, the document is inserted; the document as it is
  after the update is returned.
\<close>

definition Config_findOneAndUpdate ::
  "conv \<Rightarrow> env \<Rightarrow> jsval \<Rightarrow> nat \<Rightarrow> world \<Rightarrow> (string + config) \<times> world" where
  "Config_findOneAndUpdate conv env thr now w =
     (case castNumber conv thr of
        Inl err \<Rightarrow> (Inl err, w)
      | Inr t \<Rightarrow>
          (case await env FindOneAndUpdate w of
             (Some err, w1) \<Rightarrow> (Inl err, w1)
           | (None, w1) \<Rightarrow>
               (case configColl w1 of
                  [] \<Rightarrow>
                    (let doc = \<lparr>threshold = t, lastUpdated = now\<rparr>
                     in (Inr doc, w1\<lparr>configColl := [doc]\<rparr>))
                | c # cs \<Rightarrow>
                    (let doc = c\<lparr>threshold := t, lastUpdated := now\<rparr>
                     in (Inr doc, w1\<lparr>configColl := doc # cs\<rparr>)))))"

text \<open>
  \<^verbatim>\<open>new Data({ temperature, fanSpeed, timestamp: now })\<close> followed by \<^verbatim>\<open>save()\<close>.
  Building the document casts the two numbers; a value the cast rejects makes
  \<^verbatim>\<open>save()\<close> reject with a validation error that lists the failed paths, before
  anything is written.
\<close>

fun joinErrors :: "(string \<times> string) list \<Rightarrow> string" where
  "joinErrors [] = []"
| "joinErrors [(path, msg)] = path @ '': '' @ msg"
| "joinErrors ((path, msg) # e # es) = path @ '': '' @ msg @ '', '' @ joinErrors (e # es)"

definition validationFailed :: "(string \<times> string) list \<Rightarrow> string" where
  "validationFailed errs = ''Data validation failed: '' @ joinErrors errs"

definition new_Data :: "conv \<Rightarrow> jsval \<Rightarrow> jsval \<Rightarrow> nat \<Rightarrow> string + reading" where
  "new_Data conv temp speed now =
     (case (castNumber conv temp, castNumber conv speed) of
        (Inr t, Inr s) \<Rightarrow> Inr \<lparr>temperature = t, fanSpeed = s, timestamp = now\<rparr>
      | (Inl e1, Inr s) \<Rightarrow> Inl (validationFailed [(''temperature'', e1)])
      | (Inr t, Inl e2) \<Rightarrow> Inl (validationFailed [(''fanSpeed'', e2)])
      | (Inl e1, Inl e2) \<Rightarrow>
          Inl (validationFailed [(''temperature'', e1), (''fanSpeed'', e2)]))"

definition Data_save :: "env \<Rightarrow> string + reading \<Rightarrow> world \<Rightarrow> (string + reading) \<times> world" where
  "Data_save env newData w =
     (case newData of
        Inl err \<Rightarrow> (Inl err, w)
      | Inr doc \<Rightarrow>
          (case await env Save w of
             (Some err, w1) \<Rightarrow> (Inl err, w1)
           | (None, w1) \<Rightarrow> (Inr doc, w1\<lparr>dataColl := dataColl w1 @ [doc]\<rparr>)))"

text \<open>
  \<^verbatim>\<open>Data.find().sort({ timestamp: -1 }).limit(n)\<close>: the documents by descending
  timestamp, cut to the first \<open>n\<close>. The database leaves the order of documents
  with equal timestamps open; the model keeps them in natural order.
\<close>

fun insertDesc :: "reading \<Rightarrow> reading list \<Rightarrow> reading list" where
  "insertDesc r [] = [r]"
| "insertDesc r (x # xs) =
     (if timestamp x \<le> timestamp r then r # x # xs else x # insertDesc r xs)"

definition sortDesc :: "reading list \<Rightarrow> reading list" where
  "sortDesc rs = foldr insertDesc rs []"

definition Data_find_sort_limit :: "env \<Rightarrow> nat \<Rightarrow> world \<Rightarrow> (string + reading list) \<times> world" where
  "Data_find_sort_limit env n w =
     (case await env Find w of
        (Some err, w1) \<Rightarrow> (Inl err, w1)
      | (None, w1) \<Rightarrow> (Inr (take n (sortDesc (dataColl w1))), w1))"

text \<open>\<^verbatim>\<open>io.emit(...)\<close> of the push-channel variant.\<close>

definition io_emit :: "event \<Rightarrow> world \<Rightarrow> world" where
  "io_emit ev w = w\<lparr>emitted := emitted w @ [ev]\<rparr>"

subsection \<open>Responses\<close>

datatype payload =
    Text string
  | Readings "reading list"
  | ConfigDoc "config option"
  | ReadingDoc reading
  | Error string

record response =
  status :: nat
  payload :: payload

text \<open>\<^verbatim>\<open>res.json(x)\<close>, \<^verbatim>\<open>res.status(400).json({ error })\<close>, \<^verbatim>\<open>res.status(500).json({ error })\<close>\<close>

definition json :: "payload \<Rightarrow> response" where
  "json p = \<lparr>status = 200, payload = p\<rparr>"

definition badRequest :: "string \<Rightarrow> response" where
  "badRequest msg = \<lparr>status = 400, payload = Error msg\<rparr>"

definition serverError :: "string \<Rightarrow> response" where
  "serverError msg = \<lparr>status = 500, payload = Error msg\<rparr>"

subsection \<open>The serverless variant (the active code of src/server.js)\<close>

text \<open>
  \<^verbatim>\<open>connectToDatabase\<close>: nothing to do on a warm instance; otherwise
  \<^verbatim>\<open>mongoose.connect\<close> is awaited, a rejection is logged and thrown again.
\<close>

definition connectToDatabase :: "env \<Rightarrow> world \<Rightarrow> (string + unit) \<times> world" where
  "connectToDatabase env w =
     (if isConnected w then (Inr (), w)
      else case await env Connect w of
             (Some err, w1) \<Rightarrow> (Inl err, w1)
           | (None, w1) \<Rightarrow> (Inr (), w1\<lparr>isConnected := True\<rparr>))"

text \<open>
  \<^verbatim>\<open>initializeConfig\<close>: its \<^verbatim>\<open>catch\<close> logs whatever \<^verbatim>\<open>countDocuments\<close> or
  \<^verbatim>\<open>create\<close> throws and returns normally.
\<close>

definition initializeConfig :: "env \<Rightarrow> world \<Rightarrow> world" where
  "initializeConfig env w =
     (case Config_countDocuments env w of
        (Inl err, w1) \<Rightarrow> w1
      | (Inr configCount, w1) \<Rightarrow>
          (if configCount = 0
           then (case Config_create env 30 w1 of
                   (Inl err, w2) \<Rightarrow> w2
                 | (Inr doc, w2) \<Rightarrow> w2)
           else w1))"

text \<open>\<^verbatim>\<open>app.get("/")\<close>\<close>

definition getRoot :: "world \<Rightarrow> response \<times> world" where
  "getRoot w =
     (\<lparr>status = 200, payload = Text ''IoT Fan Speed Controller API is running''\<rparr>, w)"

text \<open>\<^verbatim>\<open>app.get('/api/data')\<close>\<close>

definition getApiData :: "env \<Rightarrow> world \<Rightarrow> response \<times> world" where
  "getApiData env w =
     (case connectToDatabase env w of
        (Inl err, w1) \<Rightarrow> (serverError err, w1)
      | (Inr u, w1) \<Rightarrow>
          (case Data_find_sort_limit env 50 (initializeConfig env w1) of
             (Inl err, w2) \<Rightarrow> (serverError err, w2)
           | (Inr data, w2) \<Rightarrow> (json (Readings data), w2)))"

text \<open>\<^verbatim>\<open>app.get('/api/config')\<close>\<close>

definition getApiConfig :: "env \<Rightarrow> world \<Rightarrow> response \<times> world" where
  "getApiConfig env w =
     (case connectToDatabase env w of
        (Inl err, w1) \<Rightarrow> (serverError err, w1)
      | (Inr u, w1) \<Rightarrow>
          (case Config_findOne env (initializeConfig env w1) of
             (Inl err, w2) \<Rightarrow> (serverError err, w2)
           | (Inr config, w2) \<Rightarrow> (json (ConfigDoc config), w2)))"

text \<open>\<^verbatim>\<open>app.post('/api/config')\<close>\<close>

definition postApiConfig :: "conv \<Rightarrow> env \<Rightarrow> body \<Rightarrow> world \<Rightarrow> response \<times> world" where
  "postApiConfig conv env body w =
     (case connectToDatabase env w of
        (Inl err, w1) \<Rightarrow> (serverError err, w1)
      | (Inr u, w1) \<Rightarrow>
          (case body ''threshold'' of
             None \<Rightarrow> (badRequest ''Threshold value is required'', w1)
           | Some thr \<Rightarrow>
               (case Config_findOneAndUpdate conv env thr (clock w1) w1 of
                  (Inl err, w2) \<Rightarrow> (serverError err, w2)
                | (Inr config, w2) \<Rightarrow> (json (ConfigDoc (Some config)), w2))))"

text \<open>\<^verbatim>\<open>app.post('/api/esp8266/data')\<close>\<close>

definition postApiEsp8266Data :: "conv \<Rightarrow> env \<Rightarrow> body \<Rightarrow> world \<Rightarrow> response \<times> world" where
  "postApiEsp8266Data conv env body w =
     (case connectToDatabase env w of
        (Inl err, w1) \<Rightarrow> (serverError err, w1)
      | (Inr u, w1) \<Rightarrow>
          (case body ''temperature'' of
             None \<Rightarrow> (badRequest ''Temperature and fan speed values are required'', w1)
           | Some temp \<Rightarrow>
               (case body ''fanSpeed'' of
                  None \<Rightarrow> (badRequest ''Temperature and fan speed values are required'', w1)
                | Some speed \<Rightarrow>
                    (case Data_save env (new_Data conv temp speed (clock w1)) w1 of
                       (Inl err, w2) \<Rightarrow> (serverError err, w2)
                     | (Inr newData, w2) \<Rightarrow> (json (ReadingDoc newData), w2)))))"

text \<open>\<^verbatim>\<open>app.get('/api/esp8266/config')\<close>\<close>

definition getApiEsp8266Config :: "env \<Rightarrow> world \<Rightarrow> response \<times> world" where
  "getApiEsp8266Config env w =
     (case connectToDatabase env w of
        (Inl err, w1) \<Rightarrow> (serverError err, w1)
      | (Inr u, w1) \<Rightarrow>
          (case Config_findOne env (initializeConfig env w1) of
             (Inl err, w2) \<Rightarrow> (serverError err, w2)
           | (Inr config, w2) \<Rightarrow> (json (ConfigDoc config), w2)))"

subsection \<open>The variant with the push channel\<close>

text \<open>
  \<^verbatim>\<open>initializeConfig\<close> of this variant has no \<^verbatim>\<open>catch\<close>; it is called once, when the
  module is loaded, and no route calls it.
\<close>

definition initializeConfig_push :: "env \<Rightarrow> world \<Rightarrow> (string + unit) \<times> world" where
  "initializeConfig_push env w =
     (case Config_countDocuments env w of
        (Inl err, w1) \<Rightarrow> (Inl err, w1)
      | (Inr configCount, w1) \<Rightarrow>
          (if configCount = 0
           then (case Config_create env 30 w1 of
                   (Inl err, w2) \<Rightarrow> (Inl err, w2)
                 | (Inr doc, w2) \<Rightarrow> (Inr (), w2))
           else (Inr (), w1)))"

definition getRoot_push :: "world \<Rightarrow> response \<times> world" where
  "getRoot_push w = (\<lparr>status = 200, payload = Text ''Express on Vercel''\<rparr>, w)"

definition getApiData_push :: "env \<Rightarrow> world \<Rightarrow> response \<times> world" where
  "getApiData_push env w =
     (case Data_find_sort_limit env 50 w of
        (Inl err, w1) \<Rightarrow> (serverError err, w1)
      | (Inr data, w1) \<Rightarrow> (json (Readings data), w1))"

definition getApiConfig_push :: "env \<Rightarrow> world \<Rightarrow> response \<times> world" where
  "getApiConfig_push env w =
     (case Config_findOne env w of
        (Inl err, w1) \<Rightarrow> (serverError err, w1)
      | (Inr config, w1) \<Rightarrow> (json (ConfigDoc config), w1))"

definition postApiConfig_push :: "conv \<Rightarrow> env \<Rightarrow> body \<Rightarrow> world \<Rightarrow> response \<times> world" where
  "postApiConfig_push conv env body w =
     (case body ''threshold'' of
        None \<Rightarrow> (badRequest ''Threshold value is required'', w)
      | Some thr \<Rightarrow>
          (case Config_findOneAndUpdate conv env thr (clock w) w of
             (Inl err, w1) \<Rightarrow> (serverError err, w1)
           | (Inr config, w1) \<Rightarrow>
               (json (ConfigDoc (Some config)), io_emit (ConfigUpdate thr) w1)))"

definition postApiEsp8266Data_push :: "conv \<Rightarrow> env \<Rightarrow> body \<Rightarrow> world \<Rightarrow> response \<times> world" where
  "postApiEsp8266Data_push conv env body w =
     (case body ''temperature'' of
        None \<Rightarrow> (badRequest ''Temperature and fan speed values are required'', w)
      | Some temp \<Rightarrow>
          (case body ''fanSpeed'' of
             None \<Rightarrow> (badRequest ''Temperature and fan speed values are required'', w)
           | Some speed \<Rightarrow>
               (case Data_save env (new_Data conv temp speed (clock w)) w of
                  (Inl err, w1) \<Rightarrow> (serverError err, w1)
                | (Inr newData, w1) \<Rightarrow>
                    (json (ReadingDoc newData),
                     io_emit (DataUpdate temp speed (timestamp newData)) w1))))"

definition getApiEsp8266Config_push :: "env \<Rightarrow> world \<Rightarrow> response \<times> world" where
  "getApiEsp8266Config_push env w =
     (case Config_findOne env w of
        (Inl err, w1) \<Rightarrow> (serverError err, w1)
      | (Inr config, w1) \<Rightarrow> (json (ConfigDoc config), w1))"

subsection \<open>Routing\<close>

datatype request =
    GetRoot
  | GetApiData
  | GetApiConfig
  | PostApiConfig body
  | PostApiEsp8266Data body
  | GetApiEsp8266Config

datatype variant = Serverless | PushChannel

fun serve :: "variant \<Rightarrow> conv \<Rightarrow> env \<Rightarrow> request \<Rightarrow> world \<Rightarrow> response \<times> world" where
  "serve Serverless conv env GetRoot w = getRoot w"
| "serve Serverless conv env GetApiData w = getApiData env w"
| "serve Serverless conv env GetApiConfig w = getApiConfig env w"
| "serve Serverless conv env (PostApiConfig body) w = postApiConfig conv env body w"
| "serve Serverless conv env (PostApiEsp8266Data body) w = postApiEsp8266Data conv env body w"
| "serve Serverless conv env GetApiEsp8266Config w = getApiEsp8266Config env w"
| "serve PushChannel conv env GetRoot w = getRoot_push w"
| "serve PushChannel conv env GetApiData w = getApiData_push env w"
| "serve PushChannel conv env GetApiConfig w = getApiConfig_push env w"
| "serve PushChannel conv env (PostApiConfig body) w = postApiConfig_push conv env body w"
| "serve PushChannel conv env (PostApiEsp8266Data body) w =
     postApiEsp8266Data_push conv env body w"
| "serve PushChannel conv env GetApiEsp8266Config w = getApiEsp8266Config_push env w"

text \<open>Environments and worlds for evaluating the model.\<close>

definition allOk :: env where
  "allOk opn = \<lparr>elapsed = 1, fault = None\<rparr>"

text \<open>An environment in which \<^verbatim>\<open>Config.countDocuments()\<close> rejects and all else resolves.\<close>

definition countFails :: env where
  "countFails opn =
     (if opn = CountDocuments then \<lparr>elapsed = 1, fault = Some ''countDocuments timed out''\<rparr>
      else \<lparr>elapsed = 1, fault = None\<rparr>)"

text \<open>An environment in which \<^verbatim>\<open>Config.findOne()\<close> rejects and all else resolves.\<close>

definition findOneFails :: env where
  "findOneFails opn =
     (if opn = FindOne then \<lparr>elapsed = 1, fault = Some ''findOne timed out''\<rparr>
      else \<lparr>elapsed = 1, fault = None\<rparr>)"

text \<open>An environment in which every operation resolves within the same millisecond.\<close>

definition instantOk :: env where
  "instantOk opn = \<lparr>elapsed = 0, fault = None\<rparr>"

text \<open>An environment in which \<^verbatim>\<open>mongoose.connect\<close> rejects and all else resolves.\<close>

definition connectFails :: env where
  "connectFails opn =
     (if opn = Connect then \<lparr>elapsed = 1, fault = Some ''connect timed out''\<rparr>
      else \<lparr>elapsed = 1, fault = None\<rparr>)"

definition emptyWorld :: world where
  "emptyWorld =
     \<lparr>dataColl = [], configColl = [], isConnected = False, clock = 1000, emitted = []\<rparr>"

definition sampleWorld :: world where
  "sampleWorld =
     \<lparr>dataColl =
        [\<lparr>temperature = Some 21, fanSpeed = Some 40, timestamp = 900\<rparr>,
         \<lparr>temperature = Some 25, fanSpeed = Some 60, timestamp = 950\<rparr>,
         \<lparr>temperature = None, fanSpeed = Some 0, timestamp = 950\<rparr>],
      configColl = [\<lparr>threshold = Some 28, lastUpdated = 800\<rparr>],
      isConnected = True, clock = 1000, emitted = []\<rparr>"

subsection \<open>Notions the properties are stated with\<close>

text \<open>The document that \<^verbatim>\<open>initializeConfig\<close> creates.\<close>

definition defaultConfig :: "env \<Rightarrow> world \<Rightarrow> config" where
  "defaultConfig env w =
     \<lparr>threshold = Some 30, lastUpdated = clock w + elapsed (env CountDocuments)\<rparr>"

text \<open>How a request can change the Config collection: not at all, or in place, or from
  empty to one document.\<close>

definition singletonStep :: "config list \<Rightarrow> config list \<Rightarrow> bool" where
  "singletonStep before after \<longleftrightarrow>
     length after = length before \<or> (before = [] \<and> length after = 1)"

text \<open>The value of \<^verbatim>\<open>Date.now()\<close> in a write route: the clock after the connect, if one is awaited.\<close>

definition writeTime :: "variant \<Rightarrow> env \<Rightarrow> world \<Rightarrow> nat" where
  "writeTime v env w =
     (if v = Serverless \<and> \<not> isConnected w then clock w + elapsed (env Connect) else clock w)"

text \<open>The storage operation a route awaits in its own \<^verbatim>\<open>try\<close> block, after the
  connect and \<^verbatim>\<open>initializeConfig\<close>.\<close>

fun ownOp :: "request \<Rightarrow> storeOp option" where
  "ownOp GetRoot = None"
| "ownOp GetApiData = Some Find"
| "ownOp GetApiConfig = Some FindOne"
| "ownOp (PostApiConfig body) = Some FindOneAndUpdate"
| "ownOp (PostApiEsp8266Data body) = Some Save"
| "ownOp GetApiEsp8266Config = Some FindOne"

text \<open>The request gets as far as that operation: the required fields are present and
  the schema accepts them.\<close>

definition accepted :: "conv \<Rightarrow> jsval option \<Rightarrow> bool" where
  "accepted conv field =
     (case field of
        None \<Rightarrow> False
      | Some x \<Rightarrow> (case castNumber conv x of Inl err \<Rightarrow> False | Inr n \<Rightarrow> True))"

fun reaches :: "conv \<Rightarrow> request \<Rightarrow> bool" where
  "reaches conv (PostApiConfig body) = accepted conv (body ''threshold'')"
| "reaches conv (PostApiEsp8266Data body) =
     (accepted conv (body ''temperature'') \<and> accepted conv (body ''fanSpeed''))"
| "reaches conv GetRoot = False"
| "reaches conv req = True"

text \<open>The connection is there when the route needs it.\<close>

definition available :: "variant \<Rightarrow> env \<Rightarrow> world \<Rightarrow> bool" where
  "available v env w \<longleftrightarrow> v = PushChannel \<or> isConnected w \<or> fault (env Connect) = None"

text \<open>A warm serverless instance, or one whose connect resolves at once.\<close>

definition connectedAtOnce :: "env \<Rightarrow> world \<Rightarrow> bool" where
  "connectedAtOnce env w \<longleftrightarrow>
     isConnected w \<or> (fault (env Connect) = None \<and> elapsed (env Connect) = 0)"

subsection \<open>What the query of the recent readings promises\<close>

text \<open>
  \<open>recent n coll rs\<close>: \<open>rs\<close> is a newest-first selection of \<open>n\<close> documents of the
  collection (all of them when it holds fewer): ordered by descending timestamp,
  taken from the collection, none of the documents left out is newer than one that
  is returned, and the order is strictly descending when no two stored timestamps
  are equal.
\<close>

definition recent :: "nat \<Rightarrow> reading list \<Rightarrow> reading list \<Rightarrow> bool" where
  "recent n coll rs \<longleftrightarrow>
     length rs = min n (length coll) \<and>
     sorted_wrt (\<lambda>a b. timestamp b \<le> timestamp a) rs \<and>
     mset rs \<subseteq># mset coll \<and>
     (\<forall>r \<in> set rs. \<forall>x \<in># mset coll - mset rs. timestamp x \<le> timestamp r) \<and>
     (distinct (map timestamp coll) \<longrightarrow> sorted_wrt (\<lambda>a b. timestamp b < timestamp a) rs)"

section \<open>Properties\<close>

subsection \<open>Unfolding the model\<close>

lemmas op_defs =
  await_def Config_countDocuments_def Config_create_def Config_findOne_def
  Config_findOneAndUpdate_def Data_save_def Data_find_sort_limit_def io_emit_def

lemmas resp_defs = json_def badRequest_def serverError_def

lemmas route_defs =
  getRoot_def getApiData_def getApiConfig_def postApiConfig_def postApiEsp8266Data_def
  getApiEsp8266Config_def getRoot_push_def getApiData_push_def getApiConfig_push_def
  postApiConfig_push_def postApiEsp8266Data_push_def getApiEsp8266Config_push_def

subsection \<open>Sorting by descending timestamp\<close>

lemma mset_insertDesc: "mset (insertDesc r xs) = add_mset r (mset xs)"
  by (induction xs) auto

lemma mset_sortDesc: "mset (sortDesc rs) = mset rs"
  by (induction rs) (auto simp: sortDesc_def mset_insertDesc)

lemma set_insertDesc: "set (insertDesc r xs) = insert r (set xs)"
  by (induction xs) auto

lemma sorted_insertDesc:
  "sorted_wrt (\<lambda>a b. timestamp b \<le> timestamp a) xs \<Longrightarrow>
   sorted_wrt (\<lambda>a b. timestamp b \<le> timestamp a) (insertDesc r xs)"
  by (induction xs) (auto simp: set_insertDesc)

lemma sorted_sortDesc: "sorted_wrt (\<lambda>a b. timestamp b \<le> timestamp a) (sortDesc rs)"
  by (induction rs) (auto simp: sortDesc_def sorted_insertDesc)

lemma length_sortDesc: "length (sortDesc rs) = length rs"
  using mset_sortDesc [of rs] by (metis size_mset)

lemma strict_of_distinct:
  "sorted_wrt (\<lambda>a b. timestamp b \<le> timestamp a) xs \<Longrightarrow> distinct (map timestamp xs) \<Longrightarrow>
   sorted_wrt (\<lambda>a b. timestamp b < timestamp a) xs"
proof (induction xs)
  case Nil
  then show ?case by simp
next
  case (Cons a xs)
  have "timestamp x < timestamp a" if "x \<in> set xs" for x
  proof -
    have "timestamp x \<le> timestamp a" using Cons.prems(1) that by simp
    moreover have "timestamp x \<noteq> timestamp a"
      using Cons.prems(2) that by (force simp: image_iff)
    ultimately show ?thesis by simp
  qed
  then show ?case using Cons by simp
qed

lemma distinct_sortDesc:
  "distinct (map timestamp rs) \<Longrightarrow> distinct (map timestamp (sortDesc rs))"
proof -
  assume d: "distinct (map timestamp rs)"
  have "mset (map timestamp (sortDesc rs)) = mset (map timestamp rs)"
    by (simp add: mset_sortDesc)
  then show ?thesis using d by (metis mset_eq_imp_distinct_iff)
qed

lemma recent_take_sortDesc: "recent n coll (take n (sortDesc coll))"
proof -
  let ?s = "sortDesc coll"
  have parts: "mset coll = mset (take n ?s) + mset (drop n ?s)"
    by (metis append_take_drop_id mset_append mset_sortDesc)
  have srt: "sorted_wrt (\<lambda>a b. timestamp b \<le> timestamp a) (take n ?s @ drop n ?s)"
    by (simp add: sorted_sortDesc)
  have rest: "mset coll - mset (take n ?s) = mset (drop n ?s)"
    using parts by simp
  have newest:
    "\<forall>r \<in> set (take n ?s). \<forall>x \<in># mset coll - mset (take n ?s). timestamp x \<le> timestamp r"
    unfolding rest using srt unfolding sorted_wrt_append by auto
  have strict: "distinct (map timestamp coll) \<longrightarrow>
      sorted_wrt (\<lambda>a b. timestamp b < timestamp a) (take n ?s)"
    using strict_of_distinct [OF sorted_sortDesc distinct_sortDesc, of coll]
    by (auto intro: sorted_wrt_take)
  have srt_take: "sorted_wrt (\<lambda>a b. timestamp b \<le> timestamp a) (take n ?s)"
    by (rule sorted_wrt_take) (rule sorted_sortDesc)
  show ?thesis
    unfolding recent_def
    using newest strict parts srt_take
    by (auto simp: length_sortDesc)
qed

subsection \<open>What the routes leave alone\<close>

lemma dataColl_connectToDatabase: "dataColl (snd (connectToDatabase env w)) = dataColl w"
  by (simp add: connectToDatabase_def op_defs split: option.splits)

lemma configColl_connectToDatabase: "configColl (snd (connectToDatabase env w)) = configColl w"
  by (simp add: connectToDatabase_def op_defs split: option.splits)

lemma dataColl_initializeConfig: "dataColl (initializeConfig env w) = dataColl w"
  by (simp add: initializeConfig_def op_defs Let_def split: option.splits)

lemma getApiData_cases:
  "getApiData env w = (resp, w') \<Longrightarrow>
     (\<exists>m. resp = serverError m) \<or> resp = json (Readings (take 50 (sortDesc (dataColl w))))"
  using dataColl_connectToDatabase [of env w]
  by (auto simp: getApiData_def Data_find_sort_limit_def await_def dataColl_initializeConfig
      split: prod.splits sum.splits option.splits)

lemma getApiData_push_cases:
  "getApiData_push env w = (resp, w') \<Longrightarrow>
     (\<exists>m. resp = serverError m) \<or> resp = json (Readings (take 50 (sortDesc (dataColl w))))"
  by (auto simp: getApiData_push_def Data_find_sort_limit_def await_def
      split: prod.splits sum.splits option.splits)

subsection \<open>The Config collection\<close>

lemma initializeConfig_creates:
  "configColl w = [] \<Longrightarrow> fault (env CountDocuments) = None \<Longrightarrow> fault (env Create) = None \<Longrightarrow>
     configColl (initializeConfig env w) = [defaultConfig env w]"
  by (simp add: initializeConfig_def op_defs defaultConfig_def Let_def)

lemma initializeConfig_push_creates:
  "configColl w = [] \<Longrightarrow> fault (env CountDocuments) = None \<Longrightarrow> fault (env Create) = None \<Longrightarrow>
     configColl (snd (initializeConfig_push env w)) = [defaultConfig env w]"
  by (simp add: initializeConfig_push_def op_defs defaultConfig_def Let_def)

lemma initializeConfig_cases:
  "configColl (initializeConfig env w) = configColl w \<or>
   (configColl w = [] \<and> fault (env CountDocuments) = None \<and> fault (env Create) = None \<and>
    configColl (initializeConfig env w) = [defaultConfig env w])"
  by (auto simp: initializeConfig_def op_defs defaultConfig_def Let_def split: option.splits)

lemma initializeConfig_push_cases:
  "configColl (snd (initializeConfig_push env w)) = configColl w \<or>
   (configColl w = [] \<and> fault (env CountDocuments) = None \<and> fault (env Create) = None \<and>
    configColl (snd (initializeConfig_push env w)) = [defaultConfig env w])"
  by (auto simp: initializeConfig_push_def op_defs defaultConfig_def Let_def split: option.splits)

lemma initializeConfig_noop:
  "configColl w \<noteq> [] \<Longrightarrow> configColl (initializeConfig env w) = configColl w"
  using initializeConfig_cases [of env w] by auto

lemma initializeConfig_push_noop:
  "configColl w \<noteq> [] \<Longrightarrow> configColl (snd (initializeConfig_push env w)) = configColl w"
  using initializeConfig_push_cases [of env w] by auto

lemma dataColl_initializeConfig_push: "dataColl (snd (initializeConfig_push env w)) = dataColl w"
  by (simp add: initializeConfig_push_def op_defs Let_def split: option.splits)

text \<open>The upsert on its own.\<close>

lemma findOneAndUpdate_configColl:
  "configColl (snd (Config_findOneAndUpdate conv env thr now w)) = configColl w \<or>
   (\<exists>t. castNumber conv thr = Inr t \<and> fault (env FindOneAndUpdate) = None \<and>
      configColl (snd (Config_findOneAndUpdate conv env thr now w)) =
        (case configColl w of
           [] \<Rightarrow> [\<lparr>threshold = t, lastUpdated = now\<rparr>]
         | c # cs \<Rightarrow> c\<lparr>threshold := t, lastUpdated := now\<rparr> # cs))"
  by (auto simp: Config_findOneAndUpdate_def await_def Let_def
      split: sum.splits option.splits list.splits)

lemma singletonStep_refl: "singletonStep cs cs"
  by (simp add: singletonStep_def)

lemma singletonStep_initializeConfig:
  "singletonStep (configColl w) (configColl (initializeConfig env w))"
  using initializeConfig_cases [of env w] by (auto simp: singletonStep_def)

lemma singletonStep_findOneAndUpdate:
  "singletonStep (configColl w) (configColl (snd (Config_findOneAndUpdate conv env thr now w)))"
  using findOneAndUpdate_configColl [of conv env thr now w]
  by (cases "configColl w") (auto simp: singletonStep_def)

lemma configColl_connect_result:
  "connectToDatabase env w = (r, w1) \<Longrightarrow> configColl w1 = configColl w"
  using configColl_connectToDatabase [of env w] by simp

lemma configColl_findOne: "configColl (snd (Config_findOne env w)) = configColl w"
  by (simp add: Config_findOne_def await_def split: option.splits)

lemma configColl_find: "configColl (snd (Data_find_sort_limit env n w)) = configColl w"
  by (simp add: Data_find_sort_limit_def await_def split: option.splits)

lemma configColl_save: "configColl (snd (Data_save env d w)) = configColl w"
  by (simp add: Data_save_def await_def split: option.splits sum.splits)

lemma serve_singletonStep:
  "singletonStep (configColl w) (configColl (snd (serve v conv env req w)))"
proof -
  obtain r w1 where c: "connectToDatabase env w = (r, w1)" by fastforce
  have w1: "configColl w1 = configColl w" using c by (rule configColl_connect_result)
  have i: "singletonStep (configColl w) (configColl (initializeConfig env w1))"
    using singletonStep_initializeConfig [of w1 env] w1 by simp
  have u: "singletonStep (configColl w)
      (configColl (snd (Config_findOneAndUpdate conv env thr now w1)))" for thr now
    using singletonStep_findOneAndUpdate [of w1 conv env thr now] w1 by simp
  have u': "singletonStep (configColl w)
      (configColl (snd (Config_findOneAndUpdate conv env thr now w)))" for thr now
    by (rule singletonStep_findOneAndUpdate)
  show ?thesis
  proof (cases v)
    case Serverless
    show ?thesis
    proof (cases req)
      case GetRoot
      then show ?thesis using Serverless by (simp add: getRoot_def singletonStep_refl)
    next
      case GetApiData
      then show ?thesis using Serverless c w1 i configColl_find [of env 50 "initializeConfig env w1"]
        by (auto simp: getApiData_def singletonStep_refl split: sum.splits prod.splits)
    next
      case GetApiConfig
      then show ?thesis using Serverless c w1 i configColl_findOne [of env "initializeConfig env w1"]
        by (auto simp: getApiConfig_def singletonStep_refl split: sum.splits prod.splits)
    next
      case (PostApiConfig body)
      then show ?thesis using Serverless c w1 u
        by (auto simp: postApiConfig_def singletonStep_refl
            split: sum.splits prod.splits option.splits)
          (metis snd_conv)+
    next
      case (PostApiEsp8266Data body)
      then show ?thesis using Serverless c w1 configColl_save [of env _ w1]
        by (auto simp: postApiEsp8266Data_def singletonStep_refl
            split: sum.splits prod.splits option.splits)
          (metis snd_conv singletonStep_refl)+
    next
      case GetApiEsp8266Config
      then show ?thesis using Serverless c w1 i configColl_findOne [of env "initializeConfig env w1"]
        by (auto simp: getApiEsp8266Config_def singletonStep_refl split: sum.splits prod.splits)
    qed
  next
    case PushChannel
    show ?thesis
    proof (cases req)
      case GetRoot
      then show ?thesis using PushChannel by (simp add: getRoot_push_def singletonStep_refl)
    next
      case GetApiData
      then show ?thesis using PushChannel configColl_find [of env 50 w]
        by (auto simp: getApiData_push_def singletonStep_refl split: sum.splits prod.splits)
    next
      case GetApiConfig
      then show ?thesis using PushChannel configColl_findOne [of env w]
        by (auto simp: getApiConfig_push_def singletonStep_refl split: sum.splits prod.splits)
    next
      case (PostApiConfig body)
      then show ?thesis using PushChannel u'
        by (auto simp: postApiConfig_push_def singletonStep_refl io_emit_def
            split: sum.splits prod.splits option.splits)
          (metis snd_conv)+
    next
      case (PostApiEsp8266Data body)
      then show ?thesis using PushChannel configColl_save [of env _ w]
        by (auto simp: postApiEsp8266Data_push_def singletonStep_refl io_emit_def
            split: sum.splits prod.splits option.splits)
          (metis snd_conv singletonStep_refl)+
    next
      case GetApiEsp8266Config
      then show ?thesis using PushChannel configColl_findOne [of env w]
        by (auto simp: getApiEsp8266Config_push_def singletonStep_refl split: sum.splits prod.splits)
    qed
  qed
qed

lemma postApiConfig_configColl:
  assumes "configColl w = c # cs"
  shows "configColl (snd (serve v conv env (PostApiConfig body) w)) = c # cs \<or>
     (\<exists>t now. configColl (snd (serve v conv env (PostApiConfig body) w))
         = c\<lparr>threshold := t, lastUpdated := now\<rparr> # cs)"
proof -
  obtain r w1 where c: "connectToDatabase env w = (r, w1)" by fastforce
  have w1: "configColl w1 = c # cs" using c assms configColl_connect_result by metis
  have u: "configColl (snd (Config_findOneAndUpdate conv env thr now w')) = c # cs \<or>
      configColl (snd (Config_findOneAndUpdate conv env thr now w'))
         = c\<lparr>threshold := t, lastUpdated := now\<rparr> # cs"
    if "configColl w' = c # cs" "castNumber conv thr = Inr t \<or> (\<forall>t'. castNumber conv thr \<noteq> Inr t')" for thr now w' t
    using findOneAndUpdate_configColl [of conv env thr now w'] that by auto
  show ?thesis
  proof (cases v)
    case Serverless
    show ?thesis
    proof (cases "body ''threshold''")
      case None
      then show ?thesis using Serverless c w1
        by (auto simp: postApiConfig_def split: sum.splits)
    next
      case (Some thr)
      show ?thesis
      proof (cases r)
        case (Inl e)
        then show ?thesis using Serverless c w1 by (simp add: postApiConfig_def)
      next
        case (Inr x)
        have "serve v conv env (PostApiConfig body) w =
          (case Config_findOneAndUpdate conv env thr (clock w1) w1 of
                  (Inl err, w2) \<Rightarrow> (serverError err, w2)
                | (Inr config, w2) \<Rightarrow> (json (ConfigDoc (Some config)), w2))"
          using Serverless c Some Inr by (simp add: postApiConfig_def)
        then have "snd (serve v conv env (PostApiConfig body) w) =
           snd (Config_findOneAndUpdate conv env thr (clock w1) w1)"
          by (auto split: prod.splits sum.splits)
        then show ?thesis
          using findOneAndUpdate_configColl [of conv env thr "clock w1" w1] w1
          by auto
      qed
    qed
  next
    case PushChannel
    show ?thesis
    proof (cases "body ''threshold''")
      case None
      then show ?thesis using PushChannel assms
        by (auto simp: postApiConfig_push_def)
    next
      case (Some thr)
      have "configColl (snd (serve v conv env (PostApiConfig body) w)) =
           configColl (snd (Config_findOneAndUpdate conv env thr (clock w) w))"
        using PushChannel Some
        by (auto simp: postApiConfig_push_def io_emit_def split: prod.splits sum.splits)
      then show ?thesis
        using findOneAndUpdate_configColl [of conv env thr "clock w" w] assms
        by auto
    qed
  qed
qed

lemma postApiConfig_stores:
  assumes "body ''threshold'' = Some thr" and "castNumber conv thr = Inr t"
    and "v = PushChannel \<or> isConnected w \<or> fault (env Connect) = None"
    and "fault (env FindOneAndUpdate) = None"
    and "c = (case configColl w of
             [] \<Rightarrow> \<lparr>threshold = t, lastUpdated = writeTime v env w\<rparr>
           | c0 # cs \<Rightarrow> c0\<lparr>threshold := t, lastUpdated := writeTime v env w\<rparr>)"
  shows "fst (serve v conv env (PostApiConfig body) w) = \<lparr>status = 200, payload = ConfigDoc (Some c)\<rparr> \<and>
      configColl (snd (serve v conv env (PostApiConfig body) w)) = c # tl (configColl w) \<and>
      dataColl (snd (serve v conv env (PostApiConfig body) w)) = dataColl w \<and>
      (v = Serverless \<longrightarrow> isConnected (snd (serve v conv env (PostApiConfig body) w)))"
  using assms
  by (cases v; cases "configColl w")
     (auto simp: postApiConfig_def postApiConfig_push_def connectToDatabase_def writeTime_def
        Config_findOneAndUpdate_def await_def io_emit_def resp_defs Let_def)

lemma getApiConfig_first:
  assumes "configColl w = c # cs" and "v = PushChannel \<or> isConnected w \<or> fault (env Connect) = None"
    and "fault (env FindOne) = None"
  shows "fst (serve v conv env GetApiConfig w) = \<lparr>status = 200, payload = ConfigDoc (Some c)\<rparr>"
proof (cases v)
  case PushChannel
  then show ?thesis using assms
    by (simp add: getApiConfig_push_def Config_findOne_def await_def resp_defs)
next
  case Serverless
  obtain r w1 where c: "connectToDatabase env w = (r, w1)" by fastforce
  have r: "r = Inr ()" using c assms Serverless
    by (auto simp: connectToDatabase_def await_def split: if_splits option.splits)
  have w1: "configColl w1 = c # cs" using c assms configColl_connect_result by metis
  then have "configColl (initializeConfig env w1) = c # cs"
    using initializeConfig_noop [of w1 env] by simp
  then show ?thesis using Serverless c r assms(3)
    by (simp add: getApiConfig_def Config_findOne_def await_def resp_defs)
qed

lemma clock_le_writeTime: "clock w \<le> writeTime v env w"
  by (simp add: writeTime_def)

lemma stored_initializeConfig_noop:
  "configColl w \<noteq> [] \<Longrightarrow> stored (initializeConfig env w) = stored w"
  by (simp add: stored_def initializeConfig_noop dataColl_initializeConfig)

lemma stored_initializeConfig_push_noop:
  "configColl w \<noteq> [] \<Longrightarrow> stored (snd (initializeConfig_push env w)) = stored w"
  by (simp add: stored_def initializeConfig_push_noop dataColl_initializeConfig_push)

lemma singletonStep_le: "singletonStep before after \<Longrightarrow> length before \<le> 1 \<Longrightarrow> length after \<le> 1"
  by (auto simp: singletonStep_def)

subsection \<open>Failures, and the two variants side by side\<close>

lemma getApiConfig_creates:
  assumes "configColl w = []" and "isConnected w \<or> fault (env Connect) = None"
    and "fault (env CountDocuments) = None" and "fault (env Create) = None"
    and "fault (env FindOne) = None"
    and "c = \<lparr>threshold = Some 30,
              lastUpdated = writeTime Serverless env w + elapsed (env CountDocuments)\<rparr>"
  shows "fst (getApiConfig env w) = \<lparr>status = 200, payload = ConfigDoc (Some c)\<rparr> \<and>
         configColl (snd (getApiConfig env w)) = [c]"
  using assms
  by (auto simp: getApiConfig_def connectToDatabase_def initializeConfig_def op_defs resp_defs
      writeTime_def Let_def)

lemma connect_fails:
  "\<not> isConnected w \<Longrightarrow> fault (env Connect) = Some m \<Longrightarrow>
     connectToDatabase env w = (Inl m, w\<lparr>clock := clock w + elapsed (env Connect)\<rparr>)"
  by (simp add: connectToDatabase_def await_def)

lemma connect_ok:
  "isConnected w \<or> fault (env Connect) = None \<Longrightarrow>
     \<exists>w1. connectToDatabase env w = (Inr (), w1) \<and> stored w1 = stored w \<and>
        clock w1 = writeTime Serverless env w \<and> emitted w1 = emitted w \<and> isConnected w1"
  by (auto simp: connectToDatabase_def await_def stored_def writeTime_def)

lemma serverless_connect_failure:
  assumes "req \<noteq> GetRoot" and "\<not> isConnected w" and "fault (env Connect) = Some m"
  shows "fst (serve Serverless conv env req w) = \<lparr>status = 500, payload = Error m\<rparr>"
  using assms connect_fails [of w env m]
  by (cases req) (simp_all add: route_defs resp_defs)

lemma find_fails:
  "fault (env Find) = Some m \<Longrightarrow> fst (Data_find_sort_limit env n w) = Inl m"
  by (simp add: Data_find_sort_limit_def await_def)

lemma findOne_fails:
  "fault (env FindOne) = Some m \<Longrightarrow> fst (Config_findOne env w) = Inl m"
  by (simp add: Config_findOne_def await_def)

lemma findOneAndUpdate_fails:
  "fault (env FindOneAndUpdate) = Some m \<Longrightarrow> castNumber conv thr = Inr t \<Longrightarrow>
     fst (Config_findOneAndUpdate conv env thr now w) = Inl m"
  by (simp add: Config_findOneAndUpdate_def await_def)

lemma save_fails:
  "fault (env Save) = Some m \<Longrightarrow> fst (Data_save env (Inr d) w) = Inl m"
  by (simp add: Data_save_def await_def)

lemma new_Data_accepted:
  "accepted conv (Some temp) \<Longrightarrow> accepted conv (Some speed) \<Longrightarrow>
     \<exists>d. new_Data conv temp speed now = Inr d"
  by (auto simp: accepted_def new_Data_def split: sum.splits)

lemma own_failure_push:
  assumes "ownOp req = Some opn" and "reaches conv req" and "fault (env opn) = Some m"
  shows "fst (serve PushChannel conv env req w) = \<lparr>status = 500, payload = Error m\<rparr>"
proof (cases req)
  case GetRoot
  then show ?thesis using assms by simp
next
  case GetApiData
  then show ?thesis using assms find_fails [of env m 50 w]
    by (auto simp: getApiData_push_def resp_defs split: prod.splits sum.splits)
next
  case GetApiConfig
  then show ?thesis using assms findOne_fails [of env m w]
    by (auto simp: getApiConfig_push_def resp_defs split: prod.splits sum.splits)
next
  case (PostApiConfig body)
  then obtain thr t where "body ''threshold'' = Some thr" "castNumber conv thr = Inr t"
    using assms(2) by (auto simp: accepted_def split: option.splits sum.splits)
  then show ?thesis using PostApiConfig assms findOneAndUpdate_fails [of env m conv thr t "clock w" w]
    by (auto simp: postApiConfig_push_def resp_defs split: prod.splits sum.splits)
next
  case (PostApiEsp8266Data body)
  then obtain temp speed where b: "body ''temperature'' = Some temp" "body ''fanSpeed'' = Some speed"
    using assms(2) by (auto simp: accepted_def split: option.splits)
  then obtain d where "new_Data conv temp speed (clock w) = Inr d"
    using new_Data_accepted [of conv temp speed "clock w"] assms(2) PostApiEsp8266Data by auto
  then show ?thesis using PostApiEsp8266Data assms b save_fails [of env m d w]
    by (auto simp: postApiEsp8266Data_push_def resp_defs split: prod.splits sum.splits)
next
  case GetApiEsp8266Config
  then show ?thesis using assms findOne_fails [of env m w]
    by (auto simp: getApiEsp8266Config_push_def resp_defs split: prod.splits sum.splits)
qed

lemma own_failure_serverless:
  assumes "ownOp req = Some opn" and "reaches conv req" and "fault (env opn) = Some m"
    and "isConnected w \<or> fault (env Connect) = None"
  shows "fst (serve Serverless conv env req w) = \<lparr>status = 500, payload = Error m\<rparr>"
proof -
  obtain w1 where c: "connectToDatabase env w = (Inr (), w1)"
    using connect_ok [of w env] assms(4) by blast
  show ?thesis
  proof (cases req)
    case GetRoot
    then show ?thesis using assms by simp
  next
    case GetApiData
    then show ?thesis using assms c find_fails [of env m 50 "initializeConfig env w1"]
      by (auto simp: getApiData_def resp_defs split: prod.splits sum.splits)
  next
    case GetApiConfig
    then show ?thesis using assms c findOne_fails [of env m "initializeConfig env w1"]
      by (auto simp: getApiConfig_def resp_defs split: prod.splits sum.splits)
  next
    case (PostApiConfig body)
    then obtain thr t where "body ''threshold'' = Some thr" "castNumber conv thr = Inr t"
      using assms(2) by (auto simp: accepted_def split: option.splits sum.splits)
    then show ?thesis
      using PostApiConfig assms c findOneAndUpdate_fails [of env m conv thr t "clock w1" w1]
      by (auto simp: postApiConfig_def resp_defs split: prod.splits sum.splits)
  next
    case (PostApiEsp8266Data body)
    then obtain temp speed where b: "body ''temperature'' = Some temp" "body ''fanSpeed'' = Some speed"
      using assms(2) by (auto simp: accepted_def split: option.splits)
    then obtain d where "new_Data conv temp speed (clock w1) = Inr d"
      using new_Data_accepted [of conv temp speed "clock w1"] assms(2) PostApiEsp8266Data by auto
    then show ?thesis using PostApiEsp8266Data assms c b save_fails [of env m d w1]
      by (auto simp: postApiEsp8266Data_def resp_defs split: prod.splits sum.splits)
  next
    case GetApiEsp8266Config
    then show ?thesis using assms c findOne_fails [of env m "initializeConfig env w1"]
      by (auto simp: getApiEsp8266Config_def resp_defs split: prod.splits sum.splits)
  qed
qed

lemma read_route_status:
  assumes "req = GetApiData \<or> req = GetApiConfig \<or> req = GetApiEsp8266Config"
    and "isConnected w \<or> fault (env Connect) = None"
    and "ownOp req = Some opn" and "fault (env opn) = None"
  shows "status (fst (serve Serverless conv env req w)) = 200"
proof -
  obtain w1 where c: "connectToDatabase env w = (Inr (), w1)"
    using connect_ok [of w env] assms(2) by blast
  show ?thesis
    using assms(1,3,4) c
    by (auto simp: getApiData_def getApiConfig_def getApiEsp8266Config_def resp_defs
        Data_find_sort_limit_def Config_findOne_def await_def)
qed

lemma connect_at_once:
  "connectedAtOnce env w \<Longrightarrow> connectToDatabase env w = (Inr (), w\<lparr>isConnected := True\<rparr>)"
  by (auto simp: connectedAtOnce_def connectToDatabase_def await_def)

lemma findOne_frame:
  "configColl w1 = configColl w \<Longrightarrow>
     fst (Config_findOne env w1) = fst (Config_findOne env w) \<and>
     stored (snd (Config_findOne env w1)) = stored w1"
  by (simp add: Config_findOne_def await_def stored_def split: option.splits)

lemma find_frame:
  "dataColl w1 = dataColl w \<Longrightarrow>
     fst (Data_find_sort_limit env n w1) = fst (Data_find_sort_limit env n w) \<and>
     stored (snd (Data_find_sort_limit env n w1)) = stored w1"
  by (simp add: Data_find_sort_limit_def await_def stored_def split: option.splits)

lemma stored_connected [simp]: "stored (w\<lparr>isConnected := b\<rparr>) = stored w"
  by (simp add: stored_def)

lemma read_routes_agree:
  assumes "isConnected w \<or> fault (env Connect) = None" and "configColl w \<noteq> []"
    and "req = GetApiData \<or> req = GetApiConfig \<or> req = GetApiEsp8266Config"
  shows "fst (serve Serverless conv env req w) = fst (serve PushChannel conv env req w) \<and>
         stored (snd (serve Serverless conv env req w))
           = stored (snd (serve PushChannel conv env req w))"
proof -
  obtain w0 where c: "connectToDatabase env w = (Inr (), w0)" and s0: "stored w0 = stored w"
    using connect_ok [of w env] assms(1) by blast
  let ?w1 = "initializeConfig env w0"
  have "configColl w0 \<noteq> []" using s0 assms(2) by (simp add: stored_def)
  then have s: "stored ?w1 = stored w"
    using stored_initializeConfig_noop [of w0 env] s0 by simp
  then have d: "dataColl ?w1 = dataColl w" and k: "configColl ?w1 = configColl w"
    by (simp_all add: stored_def)
  have f1: "fst (Config_findOne env ?w1) = fst (Config_findOne env w)"
    "stored (snd (Config_findOne env ?w1)) = stored w"
    "stored (snd (Config_findOne env w)) = stored w"
    using findOne_frame [where ?w1.0 = ?w1 and w = w and env = env] k
      findOne_frame [where ?w1.0 = w and w = w and env = env] s by simp_all
  have f2: "fst (Data_find_sort_limit env 50 ?w1) = fst (Data_find_sort_limit env 50 w)"
    "stored (snd (Data_find_sort_limit env 50 ?w1)) = stored w"
    "stored (snd (Data_find_sort_limit env 50 w)) = stored w"
    using find_frame [where ?w1.0 = ?w1 and w = w and env = env and n = 50] d
      find_frame [where ?w1.0 = w and w = w and env = env and n = 50] s by simp_all
  show ?thesis
    using assms(3) c f1 f2
    by (auto simp: getApiData_def getApiConfig_def getApiEsp8266Config_def
        getApiData_push_def getApiConfig_push_def getApiEsp8266Config_push_def
        split: prod.splits sum.splits)
qed

lemma findOneAndUpdate_connected:
  "Config_findOneAndUpdate conv env thr now (w\<lparr>isConnected := True\<rparr>)
     = (fst (Config_findOneAndUpdate conv env thr now w),
        (snd (Config_findOneAndUpdate conv env thr now w))\<lparr>isConnected := True\<rparr>)"
  by (simp add: Config_findOneAndUpdate_def await_def Let_def
      split: sum.splits option.splits list.splits)

lemma save_connected:
  "Data_save env d (w\<lparr>isConnected := True\<rparr>)
     = (fst (Data_save env d w), (snd (Data_save env d w))\<lparr>isConnected := True\<rparr>)"
  by (simp add: Data_save_def await_def split: sum.splits option.splits)

lemma stored_io_emit [simp]: "stored (io_emit ev w) = stored w"
  by (simp add: stored_def io_emit_def)

lemma postApiConfig_agree:
  assumes "connectedAtOnce env w"
  shows "fst (postApiConfig conv env body w) = fst (postApiConfig_push conv env body w) \<and>
         stored (snd (postApiConfig conv env body w))
           = stored (snd (postApiConfig_push conv env body w))"
proof (cases "body ''threshold''")
  case None
  then show ?thesis using connect_at_once [OF assms]
    by (simp add: postApiConfig_def postApiConfig_push_def)
next
  case (Some thr)
  obtain r w2 where u: "Config_findOneAndUpdate conv env thr (clock w) w = (r, w2)"
    by fastforce
  then have u': "Config_findOneAndUpdate conv env thr (clock w) (w\<lparr>isConnected := True\<rparr>)
      = (r, w2\<lparr>isConnected := True\<rparr>)"
    by (simp add: findOneAndUpdate_connected)
  show ?thesis using Some connect_at_once [OF assms] u u'
    by (cases r) (simp_all add: postApiConfig_def postApiConfig_push_def)
qed

lemma postApiEsp8266Data_agree:
  assumes "connectedAtOnce env w"
  shows "fst (postApiEsp8266Data conv env body w) = fst (postApiEsp8266Data_push conv env body w) \<and>
         stored (snd (postApiEsp8266Data conv env body w))
           = stored (snd (postApiEsp8266Data_push conv env body w))"
proof (cases "body ''temperature''")
  case None
  then show ?thesis using connect_at_once [OF assms]
    by (simp add: postApiEsp8266Data_def postApiEsp8266Data_push_def)
next
  case temp: (Some temp)
  show ?thesis
  proof (cases "body ''fanSpeed''")
    case None
    then show ?thesis using temp connect_at_once [OF assms]
      by (simp add: postApiEsp8266Data_def postApiEsp8266Data_push_def)
  next
    case (Some speed)
    obtain r w2 where u: "Data_save env (new_Data conv temp speed (clock w)) w = (r, w2)"
      by fastforce
    then have u': "Data_save env (new_Data conv temp speed (clock w)) (w\<lparr>isConnected := True\<rparr>)
        = (r, w2\<lparr>isConnected := True\<rparr>)"
      by (simp add: save_connected)
    show ?thesis using temp Some connect_at_once [OF assms] u u'
      by (cases r) (simp_all add: postApiEsp8266Data_def postApiEsp8266Data_push_def)
  qed
qed

lemma write_routes_agree:
  assumes "connectedAtOnce env w"
    and "req = PostApiConfig body \<or> req = PostApiEsp8266Data body"
  shows "fst (serve Serverless conv env req w) = fst (serve PushChannel conv env req w) \<and>
         stored (snd (serve Serverless conv env req w))
           = stored (snd (serve PushChannel conv env req w))"
  using assms(2) postApiConfig_agree [OF assms(1)] postApiEsp8266Data_agree [OF assms(1)]
  by auto

lemma emitted_connectToDatabase: "emitted (snd (connectToDatabase env w)) = emitted w"
  by (simp add: connectToDatabase_def await_def split: option.splits)

lemma emitted_initializeConfig: "emitted (initializeConfig env w) = emitted w"
  by (simp add: initializeConfig_def op_defs Let_def split: option.splits)

lemma emitted_findOne: "emitted (snd (Config_findOne env w)) = emitted w"
  by (simp add: Config_findOne_def await_def split: option.splits)

lemma emitted_find: "emitted (snd (Data_find_sort_limit env n w)) = emitted w"
  by (simp add: Data_find_sort_limit_def await_def split: option.splits)

lemma emitted_save: "emitted (snd (Data_save env d w)) = emitted w"
  by (simp add: Data_save_def await_def split: option.splits sum.splits)

lemma emitted_findOneAndUpdate:
  "emitted (snd (Config_findOneAndUpdate conv env thr now w)) = emitted w"
  by (simp add: Config_findOneAndUpdate_def await_def Let_def
      split: option.splits sum.splits list.splits)

lemma serverless_emits_nothing:
  "emitted (snd (serve Serverless conv env req w)) = emitted w"
proof -
  obtain r w1 where c: "connectToDatabase env w = (r, w1)" by fastforce
  have w1: "emitted w1 = emitted w" using emitted_connectToDatabase [of env w] c by simp
  show ?thesis
  proof (cases req)
    case GetRoot
    then show ?thesis by (simp add: getRoot_def)
  next
    case GetApiData
    then show ?thesis
      using c w1 emitted_find [of env 50 "initializeConfig env w1"]
        emitted_initializeConfig [of env w1]
      by (auto simp: getApiData_def split: sum.splits prod.splits)
  next
    case GetApiConfig
    then show ?thesis
      using c w1 emitted_findOne [of env "initializeConfig env w1"]
        emitted_initializeConfig [of env w1]
      by (auto simp: getApiConfig_def split: sum.splits prod.splits)
  next
    case (PostApiConfig body)
    then show ?thesis
      using c w1 emitted_findOneAndUpdate [of conv env _ "clock w1" w1]
      by (auto simp: postApiConfig_def split: sum.splits prod.splits option.splits)
         (metis snd_conv)+
  next
    case (PostApiEsp8266Data body)
    then show ?thesis
      using c w1 emitted_save [of env _ w1]
      by (auto simp: postApiEsp8266Data_def split: sum.splits prod.splits option.splits)
         (metis snd_conv)+
  next
    case GetApiEsp8266Config
    then show ?thesis
      using c w1 emitted_findOne [of env "initializeConfig env w1"]
        emitted_initializeConfig [of env w1]
      by (auto simp: getApiEsp8266Config_def split: sum.splits prod.splits)
  qed
qed

lemma postApiConfig_not_400:
  assumes "body ''threshold'' = Some thr"
  shows "status (fst (serve v conv env (PostApiConfig body) w)) = 200 \<or>
         status (fst (serve v conv env (PostApiConfig body) w)) = 500"
proof (cases v)
  case Serverless
  obtain r w1 where c: "connectToDatabase env w = (r, w1)" by fastforce
  obtain r2 w2 where u: "Config_findOneAndUpdate conv env thr (clock w1) w1 = (r2, w2)"
    by fastforce
  show ?thesis using Serverless assms c u
    by (cases r; cases r2) (simp_all add: postApiConfig_def resp_defs)
next
  case PushChannel
  obtain r2 w2 where u: "Config_findOneAndUpdate conv env thr (clock w) w = (r2, w2)"
    by fastforce
  show ?thesis using PushChannel assms u
    by (cases r2) (simp_all add: postApiConfig_push_def resp_defs)
qed

lemma postApiConfig_cast_fails:
  assumes "body ''threshold'' = Some thr" and "castNumber conv thr = Inl m"
  shows "stored (snd (serve v conv env (PostApiConfig body) w)) = stored w \<and>
         (available v env w \<longrightarrow>
            fst (serve v conv env (PostApiConfig body) w) = \<lparr>status = 500, payload = Error m\<rparr>)"
  using assms
  by (cases v)
     (auto simp: postApiConfig_def postApiConfig_push_def connectToDatabase_def await_def
        Config_findOneAndUpdate_def available_def stored_def resp_defs split: option.splits)

lemma serverless_read_world:
  assumes "req = GetApiData \<or> req = GetApiConfig \<or> req = GetApiEsp8266Config"
    and "connectToDatabase env w = (r, w1)"
  shows "stored (snd (serve Serverless conv env req w))
     = (case r of Inl e \<Rightarrow> stored w | Inr u \<Rightarrow> stored (initializeConfig env w1))"
proof -
  have s1: "stored w1 = stored w"
    using assms(2) dataColl_connectToDatabase [of env w] configColl_connectToDatabase [of env w]
    by (simp add: stored_def)
  show ?thesis
  proof (cases r)
    case (Inl e)
    then show ?thesis using assms s1
      by (auto simp: getApiData_def getApiConfig_def getApiEsp8266Config_def)
  next
    case (Inr u)
    let ?w2 = "initializeConfig env w1"
    have "stored (snd (Config_findOne env ?w2)) = stored ?w2"
      using findOne_frame [where ?w1.0 = ?w2 and w = ?w2 and env = env] by simp
    moreover have "stored (snd (Data_find_sort_limit env 50 ?w2)) = stored ?w2"
      using find_frame [where ?w1.0 = ?w2 and w = ?w2 and env = env and n = 50] by simp
    ultimately show ?thesis using assms Inr
      by (auto simp: getApiData_def getApiConfig_def getApiEsp8266Config_def
          split: prod.splits sum.splits)
  qed
qed

lemma new_Data_rejected:
  "castNumber conv temp = Inl e \<or> castNumber conv speed = Inl e \<Longrightarrow>
     \<exists>m. new_Data conv temp speed now = Inl m"
  by (auto simp: new_Data_def split: sum.splits)

lemma postApiEsp8266Data_rejected:
  assumes "body ''temperature'' = Some temp" and "body ''fanSpeed'' = Some speed"
    and "castNumber conv temp = Inl e \<or> castNumber conv speed = Inl e"
  shows "stored (snd (serve v conv env (PostApiEsp8266Data body) w)) = stored w \<and>
     (available v env w \<longrightarrow>
        (\<exists>m. fst (serve v conv env (PostApiEsp8266Data body) w)
           = \<lparr>status = 500, payload = Error m\<rparr>))"
proof (cases v)
  case PushChannel
  obtain m where "new_Data conv temp speed (clock w) = Inl m"
    using new_Data_rejected [OF assms(3)] by blast
  then show ?thesis using PushChannel assms(1,2)
    by (simp add: postApiEsp8266Data_push_def Data_save_def resp_defs)
next
  case Serverless
  obtain r w1 where c: "connectToDatabase env w = (r, w1)" by fastforce
  have s1: "stored w1 = stored w"
    using c dataColl_connectToDatabase [of env w] configColl_connectToDatabase [of env w]
    by (simp add: stored_def)
  obtain m where n: "new_Data conv temp speed (clock w1) = Inl m"
    using new_Data_rejected [OF assms(3)] by blast
  have r: "r = Inr ()" if "available v env w"
    using that c Serverless connect_ok [of w env] by (auto simp: available_def)
  show ?thesis using Serverless assms(1,2) c s1 n r
    by (cases r) (auto simp: postApiEsp8266Data_def Data_save_def resp_defs)
qed

subsection \<open>The claims\<close>



text \<open>
  C1, as the code has it. In both variants, whatever the stored state and whatever
  the storage operations do, a list of readings that \<^verbatim>\<open>GET /api/data\<close> answers with
  has at most 50 entries and is a newest-first selection of the stored readings:
  ordered by descending timestamp, where readings with equal timestamps follow
  each other, and strictly descending when the stored timestamps are distinct; it
  is empty when nothing is stored. When the connection is open or can be opened
  and the query does not fail, the answer is such a list, with status 200: an
  empty collection gives the empty list, not a failure.
\<close>

theorem getApiData_recent:
  "(\<forall>rs. payload (fst (serve v conv env GetApiData w)) = Readings rs \<longrightarrow>
      length rs \<le> 50 \<and> recent 50 (dataColl w) rs \<and> (dataColl w = [] \<longrightarrow> rs = [])) \<and>
   ((v = PushChannel \<or> isConnected w \<or> fault (env Connect) = None) \<and>
    fault (env Find) = None \<longrightarrow>
      status (fst (serve v conv env GetApiData w)) = 200 \<and>
      payload (fst (serve v conv env GetApiData w))
        = Readings (take 50 (sortDesc (dataColl w))))"
proof (intro conjI allI impI)
  fix rs assume p: "payload (fst (serve v conv env GetApiData w)) = Readings rs"
  obtain resp w' where r: "serve v conv env GetApiData w = (resp, w')" by fastforce
  have "(\<exists>m. resp = serverError m) \<or> resp = json (Readings (take 50 (sortDesc (dataColl w))))"
    using r getApiData_cases getApiData_push_cases by (cases v) auto
  with p r have rs: "rs = take 50 (sortDesc (dataColl w))"
    by (auto simp: resp_defs)
  show "length rs \<le> 50" by (simp add: rs)
  show "recent 50 (dataColl w) rs" unfolding rs by (rule recent_take_sortDesc)
  show "rs = []" if "dataColl w = []" using that by (simp add: rs sortDesc_def)
next
  assume a: "(v = PushChannel \<or> isConnected w \<or> fault (env Connect) = None) \<and>
    fault (env Find) = None"
  then show "status (fst (serve v conv env GetApiData w)) = 200"
    using dataColl_initializeConfig
    by (cases v)
       (auto simp: getApiData_def getApiData_push_def connectToDatabase_def
          Data_find_sort_limit_def await_def resp_defs split: prod.splits option.splits sum.splits)
  show "payload (fst (serve v conv env GetApiData w))
        = Readings (take 50 (sortDesc (dataColl w)))"
    using a dataColl_initializeConfig
    by (cases v)
       (auto simp: getApiData_def getApiData_push_def connectToDatabase_def
          Data_find_sort_limit_def await_def resp_defs split: prod.splits option.splits sum.splits)
qed

theorem getApiData_recent_witness:
  "status (fst (serve Serverless convJs allOk GetApiData sampleWorld)) = 200 \<and>
   payload (fst (serve Serverless convJs allOk GetApiData sampleWorld)) =
     Readings
       [\<lparr>temperature = Some 25, fanSpeed = Some 60, timestamp = 950\<rparr>,
        \<lparr>temperature = None, fanSpeed = Some 0, timestamp = 950\<rparr>,
        \<lparr>temperature = Some 21, fanSpeed = Some 40, timestamp = 900\<rparr>] \<and>
   recent 50 (dataColl sampleWorld)
       [\<lparr>temperature = Some 25, fanSpeed = Some 60, timestamp = 950\<rparr>,
        \<lparr>temperature = None, fanSpeed = Some 0, timestamp = 950\<rparr>,
        \<lparr>temperature = Some 21, fanSpeed = Some 40, timestamp = 900\<rparr>] \<and>
   payload (fst (serve PushChannel convJs allOk GetApiData emptyWorld)) = Readings []"
proof -
  have s: "take 50 (sortDesc (dataColl sampleWorld)) =
       [\<lparr>temperature = Some 25, fanSpeed = Some 60, timestamp = 950\<rparr>,
        \<lparr>temperature = None, fanSpeed = Some 0, timestamp = 950\<rparr>,
        \<lparr>temperature = Some 21, fanSpeed = Some 40, timestamp = 900\<rparr>]"
    by (simp add: sampleWorld_def sortDesc_def)
  have e: "take 50 (sortDesc (dataColl emptyWorld)) = []"
    by (simp add: emptyWorld_def sortDesc_def)
  have h: "isConnected sampleWorld" "fault (allOk Find) = None"
    by (simp_all add: sampleWorld_def allOk_def)
  show ?thesis
    using getApiData_recent [of Serverless convJs allOk sampleWorld]
      getApiData_recent [of PushChannel convJs allOk emptyWorld] h
    by (simp add: s e)
qed

text \<open>
  C1 as written fails: the order is not strict. Two readings that were stamped in
  the same millisecond are both returned, one after the other; two posts that
  complete within one millisecond store such a pair.
\<close>

theorem getApiData_ties_counterexample:
  "payload (fst (serve Serverless convJs allOk GetApiData sampleWorld)) =
     Readings
       [\<lparr>temperature = Some 25, fanSpeed = Some 60, timestamp = 950\<rparr>,
        \<lparr>temperature = None, fanSpeed = Some 0, timestamp = 950\<rparr>,
        \<lparr>temperature = Some 21, fanSpeed = Some 40, timestamp = 900\<rparr>] \<and>
   \<not> sorted_wrt (\<lambda>a b. timestamp b < timestamp a)
       [\<lparr>temperature = Some 25, fanSpeed = Some 60, timestamp = 950\<rparr>,
        \<lparr>temperature = None, fanSpeed = Some 0, timestamp = 950\<rparr>,
        \<lparr>temperature = Some 21, fanSpeed = Some 40, timestamp = 900\<rparr>] \<and>
   payload (fst (serve PushChannel convJs instantOk GetApiData
      (snd (serve PushChannel convJs instantOk
         (PostApiEsp8266Data [''temperature'' \<mapsto> JNum 22, ''fanSpeed'' \<mapsto> JNum 50])
      (snd (serve PushChannel convJs instantOk
         (PostApiEsp8266Data [''temperature'' \<mapsto> JNum 21, ''fanSpeed'' \<mapsto> JNum 40])
         emptyWorld)))))) =
     Readings
       [\<lparr>temperature = Some 21, fanSpeed = Some 40, timestamp = 1000\<rparr>,
        \<lparr>temperature = Some 22, fanSpeed = Some 50, timestamp = 1000\<rparr>]"
  by (simp add: getApiData_def getApiData_push_def postApiEsp8266Data_push_def
      connectToDatabase_def initializeConfig_def op_defs resp_defs new_Data_def castNumber_def
      sortDesc_def allOk_def instantOk_def sampleWorld_def emptyWorld_def Let_def)

text \<open>
  C2, as the code has it. A \<^verbatim>\<open>POST /api/config\<close> whose body has no \<^verbatim>\<open>threshold\<close>
  leaves both collections as they are (and emits nothing), in both variants and
  whatever the storage operations do. It is answered with status 400 and the error
  \<^verbatim>\<open>Threshold value is required\<close>: always in the push-channel variant, and in the
  serverless variant when the connection is open or can be opened. The serverless
  route awaits \<^verbatim>\<open>connectToDatabase()\<close> before it looks at the body: on a cold
  instance whose connect fails the answer is status 500 with the connect error.
\<close>

theorem postApiConfig_requires_threshold:
  assumes "body ''threshold'' = None"
  shows "stored (snd (serve v conv env (PostApiConfig body) w)) = stored w \<and>
         emitted (snd (serve v conv env (PostApiConfig body) w)) = emitted w \<and>
         (v = PushChannel \<or> isConnected w \<or> fault (env Connect) = None \<longrightarrow>
            fst (serve v conv env (PostApiConfig body) w)
              = \<lparr>status = 400, payload = Error ''Threshold value is required''\<rparr>) \<and>
         (v = Serverless \<and> \<not> isConnected w \<and> fault (env Connect) = Some m \<longrightarrow>
            fst (serve v conv env (PostApiConfig body) w)
              = \<lparr>status = 500, payload = Error m\<rparr>)"
  using assms
  by (cases v)
     (auto simp: postApiConfig_def postApiConfig_push_def connectToDatabase_def await_def
        stored_def resp_defs split: option.splits)

theorem postApiConfig_requires_threshold_witness:
  "fst (serve Serverless convJs allOk (PostApiConfig Map.empty) emptyWorld)
     = \<lparr>status = 400, payload = Error ''Threshold value is required''\<rparr> \<and>
   stored (snd (serve Serverless convJs allOk (PostApiConfig Map.empty) emptyWorld))
     = stored emptyWorld \<and>
   fst (serve PushChannel convJs allOk (PostApiConfig [''limit'' \<mapsto> JNum 3]) sampleWorld)
     = \<lparr>status = 400, payload = Error ''Threshold value is required''\<rparr> \<and>
   fst (serve Serverless convJs connectFails (PostApiConfig Map.empty) emptyWorld)
     = \<lparr>status = 500, payload = Error ''connect timed out''\<rparr>"
proof -
  have h: "fault (allOk Connect) = None" "fault (connectFails Connect) = Some ''connect timed out''"
    "\<not> isConnected emptyWorld"
    by (simp_all add: allOk_def connectFails_def emptyWorld_def)
  have b: "Map.empty ''threshold'' = None" "[''limit'' \<mapsto> JNum 3] ''threshold'' = None"
    by simp_all
  show ?thesis
    using postApiConfig_requires_threshold
        [where body = Map.empty and v = Serverless and conv = convJs and env = allOk
           and w = emptyWorld]
      postApiConfig_requires_threshold
        [where body = "[''limit'' \<mapsto> JNum 3]" and v = PushChannel and conv = convJs
           and env = allOk and w = sampleWorld]
      postApiConfig_requires_threshold
        [where body = Map.empty and v = Serverless and conv = convJs and env = connectFails
           and w = emptyWorld and m = "''connect timed out''"] h b
    by simp
qed

text \<open>
  C2 as written fails: on a cold serverless instance whose connect is rejected, a
  body without \<^verbatim>\<open>threshold\<close> is answered with status 500, where the push-channel
  variant answers 400.
\<close>

theorem postApiConfig_connect_first_counterexample:
  "Map.empty ''threshold'' = (None :: jsval option) \<and>
   fst (serve Serverless convJs connectFails (PostApiConfig Map.empty) emptyWorld)
     = \<lparr>status = 500, payload = Error ''connect timed out''\<rparr> \<and>
   fst (serve PushChannel convJs connectFails (PostApiConfig Map.empty) emptyWorld)
     = \<lparr>status = 400, payload = Error ''Threshold value is required''\<rparr>"
  by (simp add: postApiConfig_def postApiConfig_push_def connectToDatabase_def await_def
      resp_defs connectFails_def emptyWorld_def)

text \<open>
  C3, as the code has it. \<^verbatim>\<open>POST /api/esp8266/data\<close>, in both variants. When
  \<^verbatim>\<open>temperature\<close> or \<^verbatim>\<open>fanSpeed\<close> is absent, nothing is stored, and with the
  connection available the answer is status 400 with the error
  \<^verbatim>\<open>Temperature and fan speed values are required\<close>. When both are present and
  the schema's cast to Number accepts them (numbers and \<^verbatim>\<open>null\<close> always are), the
  connection is available and the save does not fail, one reading is appended to
  the collection, its timestamp lies between the clock at the call and the clock
  at completion, and the answer is status 200 with that stored reading. When both
  are present and the cast rejects one of them, nothing is stored and (connection
  available) the answer is status 500. On a cold serverless instance whose connect
  fails, every such request is answered with status 500 and the connect error, and
  nothing is stored.
\<close>

theorem postApiEsp8266Data_records:
  "(body ''temperature'' = None \<or> body ''fanSpeed'' = None \<longrightarrow>
      stored (snd (serve v conv env (PostApiEsp8266Data body) w)) = stored w \<and>
      (v = PushChannel \<or> isConnected w \<or> fault (env Connect) = None \<longrightarrow>
         fst (serve v conv env (PostApiEsp8266Data body) w)
           = \<lparr>status = 400,
              payload = Error ''Temperature and fan speed values are required''\<rparr>)) \<and>
   (body ''temperature'' = Some temp \<and> body ''fanSpeed'' = Some speed \<and>
    castNumber conv temp = Inr t \<and> castNumber conv speed = Inr s \<and>
    (v = PushChannel \<or> isConnected w \<or> fault (env Connect) = None) \<and>
    fault (env Save) = None \<longrightarrow>
      (\<exists>ts. clock w \<le> ts \<and> ts \<le> clock (snd (serve v conv env (PostApiEsp8266Data body) w)) \<and>
         fst (serve v conv env (PostApiEsp8266Data body) w)
           = \<lparr>status = 200,
              payload = ReadingDoc \<lparr>temperature = t, fanSpeed = s, timestamp = ts\<rparr>\<rparr> \<and>
         dataColl (snd (serve v conv env (PostApiEsp8266Data body) w))
           = dataColl w @ [\<lparr>temperature = t, fanSpeed = s, timestamp = ts\<rparr>] \<and>
         configColl (snd (serve v conv env (PostApiEsp8266Data body) w)) = configColl w)) \<and>
   (body ''temperature'' = Some temp \<and> body ''fanSpeed'' = Some speed \<and>
    (castNumber conv temp = Inl e \<or> castNumber conv speed = Inl e) \<longrightarrow>
      stored (snd (serve v conv env (PostApiEsp8266Data body) w)) = stored w \<and>
      (v = PushChannel \<or> isConnected w \<or> fault (env Connect) = None \<longrightarrow>
         (\<exists>m'. fst (serve v conv env (PostApiEsp8266Data body) w)
            = \<lparr>status = 500, payload = Error m'\<rparr>))) \<and>
   (v = Serverless \<and> \<not> isConnected w \<and> fault (env Connect) = Some m \<longrightarrow>
      fst (serve v conv env (PostApiEsp8266Data body) w) = \<lparr>status = 500, payload = Error m\<rparr> \<and>
      stored (snd (serve v conv env (PostApiEsp8266Data body) w)) = stored w)"
proof (intro conjI)
  show "body ''temperature'' = None \<or> body ''fanSpeed'' = None \<longrightarrow>
      stored (snd (serve v conv env (PostApiEsp8266Data body) w)) = stored w \<and>
      (v = PushChannel \<or> isConnected w \<or> fault (env Connect) = None \<longrightarrow>
         fst (serve v conv env (PostApiEsp8266Data body) w)
           = \<lparr>status = 400,
              payload = Error ''Temperature and fan speed values are required''\<rparr>)"
    by (cases v)
       (auto simp: postApiEsp8266Data_def postApiEsp8266Data_push_def connectToDatabase_def
          await_def stored_def resp_defs split: option.splits)
  show "body ''temperature'' = Some temp \<and> body ''fanSpeed'' = Some speed \<and>
    castNumber conv temp = Inr t \<and> castNumber conv speed = Inr s \<and>
    (v = PushChannel \<or> isConnected w \<or> fault (env Connect) = None) \<and>
    fault (env Save) = None \<longrightarrow>
      (\<exists>ts. clock w \<le> ts \<and> ts \<le> clock (snd (serve v conv env (PostApiEsp8266Data body) w)) \<and>
         fst (serve v conv env (PostApiEsp8266Data body) w)
           = \<lparr>status = 200,
              payload = ReadingDoc \<lparr>temperature = t, fanSpeed = s, timestamp = ts\<rparr>\<rparr> \<and>
         dataColl (snd (serve v conv env (PostApiEsp8266Data body) w))
           = dataColl w @ [\<lparr>temperature = t, fanSpeed = s, timestamp = ts\<rparr>] \<and>
         configColl (snd (serve v conv env (PostApiEsp8266Data body) w)) = configColl w)"
    by (cases v)
       (auto simp: postApiEsp8266Data_def postApiEsp8266Data_push_def connectToDatabase_def
          await_def Data_save_def new_Data_def io_emit_def stored_def resp_defs
          split: option.splits)
  show "body ''temperature'' = Some temp \<and> body ''fanSpeed'' = Some speed \<and>
    (castNumber conv temp = Inl e \<or> castNumber conv speed = Inl e) \<longrightarrow>
      stored (snd (serve v conv env (PostApiEsp8266Data body) w)) = stored w \<and>
      (v = PushChannel \<or> isConnected w \<or> fault (env Connect) = None \<longrightarrow>
         (\<exists>m'. fst (serve v conv env (PostApiEsp8266Data body) w)
            = \<lparr>status = 500, payload = Error m'\<rparr>))"
    using postApiEsp8266Data_rejected [of body temp speed conv e v env w]
    by (simp add: available_def)
  show "v = Serverless \<and> \<not> isConnected w \<and> fault (env Connect) = Some m \<longrightarrow>
      fst (serve v conv env (PostApiEsp8266Data body) w) = \<lparr>status = 500, payload = Error m\<rparr> \<and>
      stored (snd (serve v conv env (PostApiEsp8266Data body) w)) = stored w"
    by (auto simp: postApiEsp8266Data_def connectToDatabase_def await_def stored_def resp_defs)
qed

theorem postApiEsp8266Data_records_witness:
  "fst (serve Serverless convJs allOk
          (PostApiEsp8266Data [''temperature'' \<mapsto> JNum (51 / 2), ''fanSpeed'' \<mapsto> JNum 60])
          emptyWorld)
     = \<lparr>status = 200,
        payload = ReadingDoc \<lparr>temperature = Some (51 / 2), fanSpeed = Some 60, timestamp = 1001\<rparr>\<rparr> \<and>
   dataColl (snd (serve Serverless convJs allOk
          (PostApiEsp8266Data [''temperature'' \<mapsto> JNum (51 / 2), ''fanSpeed'' \<mapsto> JNum 60])
          emptyWorld))
     = [\<lparr>temperature = Some (51 / 2), fanSpeed = Some 60, timestamp = 1001\<rparr>] \<and>
   clock emptyWorld = 1000 \<and>
   clock (snd (serve Serverless convJs allOk
          (PostApiEsp8266Data [''temperature'' \<mapsto> JNum (51 / 2), ''fanSpeed'' \<mapsto> JNum 60])
          emptyWorld)) = 1002 \<and>
   fst (serve PushChannel convJs allOk (PostApiEsp8266Data [''temperature'' \<mapsto> JNum 20])
          sampleWorld)
     = \<lparr>status = 400, payload = Error ''Temperature and fan speed values are required''\<rparr>"
proof -
  let ?b = "[''temperature'' \<mapsto> JNum (51 / 2), ''fanSpeed'' \<mapsto> JNum 60]"
  have h: "?b ''temperature'' = Some (JNum (51 / 2))" "?b ''fanSpeed'' = Some (JNum 60)"
    "castNumber convJs (JNum (51 / 2)) = Inr (Some (51 / 2))"
    "castNumber convJs (JNum 60) = Inr (Some 60)"
    "fault (allOk Connect) = None" "fault (allOk Save) = None"
    "[''temperature'' \<mapsto> JNum 20] ''fanSpeed'' = None"
    by (simp_all add: castNumber_def allOk_def)
  have c: "clock (snd (serve Serverless convJs allOk (PostApiEsp8266Data ?b) emptyWorld)) = 1002"
    "clock emptyWorld = 1000"
    "dataColl emptyWorld = []"
    by (simp_all add: postApiEsp8266Data_def connectToDatabase_def await_def Data_save_def
        new_Data_def castNumber_def allOk_def emptyWorld_def)
  have t: "fst (serve Serverless convJs allOk (PostApiEsp8266Data ?b) emptyWorld)
     = \<lparr>status = 200,
        payload = ReadingDoc \<lparr>temperature = Some (51 / 2), fanSpeed = Some 60, timestamp = 1001\<rparr>\<rparr>"
    by (simp add: postApiEsp8266Data_def connectToDatabase_def await_def Data_save_def
        new_Data_def castNumber_def allOk_def emptyWorld_def resp_defs)
  show ?thesis
    using postApiEsp8266Data_records
        [of ?b Serverless convJs allOk emptyWorld "JNum (51 / 2)" "JNum 60" "Some (51 / 2)" "Some 60"]
      postApiEsp8266Data_records
        [of "[''temperature'' \<mapsto> JNum 20]" PushChannel convJs allOk sampleWorld] h c t
    by auto
qed


text \<open>
  C3 as written fails: a request with both fields present, whose temperature is
  the string \<^verbatim>\<open>hot\<close>, is answered with status 500 and stores nothing, because the
  schema types the field as Number; and on a cold serverless instance whose
  connect is rejected, a request without \<^verbatim>\<open>fanSpeed\<close> is answered with 500, not
  400.
\<close>

theorem postApiEsp8266Data_uncastable_counterexample:
  "fst (serve Serverless convJs allOk
      (PostApiEsp8266Data [''temperature'' \<mapsto> JStr ''hot'', ''fanSpeed'' \<mapsto> JNum 60])
      sampleWorld)
     = \<lparr>status = 500,
        payload = Error
          ''Data validation failed: temperature: Cast to Number failed for value hot''\<rparr> \<and>
   stored (snd (serve Serverless convJs allOk
      (PostApiEsp8266Data [''temperature'' \<mapsto> JStr ''hot'', ''fanSpeed'' \<mapsto> JNum 60])
      sampleWorld)) = stored sampleWorld \<and>
   status (fst (serve PushChannel convJs allOk
      (PostApiEsp8266Data [''temperature'' \<mapsto> JStr ''hot'', ''fanSpeed'' \<mapsto> JNum 60])
      sampleWorld)) = 500 \<and>
   fst (serve Serverless convJs connectFails
      (PostApiEsp8266Data [''temperature'' \<mapsto> JNum 20]) emptyWorld)
     = \<lparr>status = 500, payload = Error ''connect timed out''\<rparr>"
  by (simp add: postApiEsp8266Data_def postApiEsp8266Data_push_def connectToDatabase_def
      await_def Data_save_def new_Data_def castNumber_def castFailed_def digitValue_def
      validationFailed_def stored_def resp_defs allOk_def connectFails_def sampleWorld_def
      emptyWorld_def)

text \<open>
  C4. Requests handled one after the other keep the Config collection a singleton:
  if it holds at most one document before a request (or before \<^verbatim>\<open>initializeConfig\<close>),
  it holds at most one after it, in both variants. From an empty collection
  \<^verbatim>\<open>initializeConfig\<close> creates exactly one document, with threshold 30 (when its two
  storage operations do not fail), and running it again changes nothing; from a
  non-empty collection it changes nothing. The upsert of \<^verbatim>\<open>POST /api/config\<close> on a
  non-empty collection rewrites the first document in place and keeps the others:
  it never adds a document.
\<close>

theorem config_singleton:
  "(length (configColl w) \<le> 1 \<longrightarrow>
      length (configColl (snd (serve v conv env req w))) \<le> 1 \<and>
      length (configColl (initializeConfig env w)) \<le> 1 \<and>
      length (configColl (snd (initializeConfig_push env w))) \<le> 1) \<and>
   (configColl w = [] \<and> fault (env CountDocuments) = None \<and> fault (env Create) = None \<longrightarrow>
      configColl (initializeConfig env w) = [defaultConfig env w] \<and>
      configColl (snd (initializeConfig_push env w)) = [defaultConfig env w] \<and>
      threshold (defaultConfig env w) = Some 30 \<and>
      stored (initializeConfig env' (initializeConfig env w)) = stored (initializeConfig env w)) \<and>
   (configColl w \<noteq> [] \<longrightarrow>
      stored (initializeConfig env w) = stored w \<and>
      stored (snd (initializeConfig_push env w)) = stored w) \<and>
   (configColl w = c # cs \<longrightarrow>
      configColl (snd (serve v conv env (PostApiConfig body) w)) = c # cs \<or>
      (\<exists>t now. configColl (snd (serve v conv env (PostApiConfig body) w))
          = c\<lparr>threshold := t, lastUpdated := now\<rparr> # cs)) \<and>
   (configColl w = c # cs \<and> body ''threshold'' = Some thr \<and> castNumber conv thr = Inr t \<and>
    (v = PushChannel \<or> isConnected w \<or> fault (env Connect) = None) \<and>
    fault (env FindOneAndUpdate) = None \<longrightarrow>
      configColl (snd (serve v conv env (PostApiConfig body) w))
        = c\<lparr>threshold := t, lastUpdated := writeTime v env w\<rparr> # cs)"
proof (intro conjI impI)
  assume l: "length (configColl w) \<le> 1"
  show "length (configColl (snd (serve v conv env req w))) \<le> 1"
    using serve_singletonStep l by (rule singletonStep_le)
  show "length (configColl (initializeConfig env w)) \<le> 1"
    using initializeConfig_cases [of env w] l by auto
  show "length (configColl (snd (initializeConfig_push env w))) \<le> 1"
    using initializeConfig_push_cases [of env w] l by auto
next
  assume a: "configColl w = [] \<and> fault (env CountDocuments) = None \<and> fault (env Create) = None"
  then show one: "configColl (initializeConfig env w) = [defaultConfig env w]"
    by (simp add: initializeConfig_creates)
  show "configColl (snd (initializeConfig_push env w)) = [defaultConfig env w]"
    using a by (simp add: initializeConfig_push_creates)
  show "threshold (defaultConfig env w) = Some 30"
    by (simp add: defaultConfig_def)
  show "stored (initializeConfig env' (initializeConfig env w)) = stored (initializeConfig env w)"
    using one by (simp add: stored_initializeConfig_noop)
next
  assume "configColl w \<noteq> []"
  then show "stored (initializeConfig env w) = stored w"
    and "stored (snd (initializeConfig_push env w)) = stored w"
    by (simp_all add: stored_initializeConfig_noop stored_initializeConfig_push_noop)
next
  assume "configColl w = c # cs"
  then show "configColl (snd (serve v conv env (PostApiConfig body) w)) = c # cs \<or>
      (\<exists>t now. configColl (snd (serve v conv env (PostApiConfig body) w))
          = c\<lparr>threshold := t, lastUpdated := now\<rparr> # cs)"
    by (rule postApiConfig_configColl)
next
  assume a: "configColl w = c # cs \<and> body ''threshold'' = Some thr \<and> castNumber conv thr = Inr t \<and>
    (v = PushChannel \<or> isConnected w \<or> fault (env Connect) = None) \<and>
    fault (env FindOneAndUpdate) = None"
  then show "configColl (snd (serve v conv env (PostApiConfig body) w))
        = c\<lparr>threshold := t, lastUpdated := writeTime v env w\<rparr> # cs"
    using postApiConfig_stores [of body thr conv t v w env, OF _ _ _ _ refl] by simp
qed

theorem config_singleton_witness:
  "configColl (initializeConfig allOk emptyWorld) = [\<lparr>threshold = Some 30, lastUpdated = 1001\<rparr>] \<and>
   stored (initializeConfig allOk (initializeConfig allOk emptyWorld))
     = stored (initializeConfig allOk emptyWorld) \<and>
   stored (initializeConfig allOk sampleWorld) = stored sampleWorld \<and>
   length (configColl (snd (serve Serverless convJs allOk GetApiConfig emptyWorld))) \<le> 1 \<and>
   configColl (snd (serve Serverless convJs allOk (PostApiConfig [''threshold'' \<mapsto> JNum 35])
       sampleWorld)) = [\<lparr>threshold = Some 35, lastUpdated = 1000\<rparr>]"
proof -
  have h: "configColl emptyWorld = []" "fault (allOk CountDocuments) = None"
    "fault (allOk Create) = None" "fault (allOk FindOneAndUpdate) = None"
    "configColl sampleWorld = [\<lparr>threshold = Some 28, lastUpdated = 800\<rparr>]"
    "isConnected sampleWorld" "castNumber convJs (JNum 35) = Inr (Some 35)"
    "defaultConfig allOk emptyWorld = \<lparr>threshold = Some 30, lastUpdated = 1001\<rparr>"
    "writeTime Serverless allOk sampleWorld = 1000"
    by (simp_all add: emptyWorld_def sampleWorld_def allOk_def castNumber_def defaultConfig_def
        writeTime_def)
  show ?thesis
    using config_singleton [of emptyWorld Serverless convJs allOk GetApiConfig allOk]
      config_singleton [of sampleWorld Serverless convJs allOk GetApiConfig allOk
        "\<lparr>threshold = Some 28, lastUpdated = 800\<rparr>" "[]" "[''threshold'' \<mapsto> JNum 35]"
        "JNum 35" "Some 35"] h
    by simp
qed


text \<open>
  C5. For every prior state and every number \<open>n\<close> (42 in the specification's
  scenario): when \<^verbatim>\<open>POST /api/config\<close> with \<^verbatim>\<open>threshold = n\<close> is followed by
  \<^verbatim>\<open>GET /api/config\<close>, and the connection is available and neither the upsert nor
  the \<^verbatim>\<open>findOne\<close> fails, both answers carry the same Config document, whose
  threshold is \<open>n\<close> and whose \<^verbatim>\<open>lastUpdated\<close> is not before the clock at the call
  of the POST.
\<close>

theorem threshold_round_trip:
  assumes "body ''threshold'' = Some (JNum n)"
    and "v = PushChannel \<or> isConnected w \<or> fault (env Connect) = None"
    and "fault (env FindOneAndUpdate) = None"
    and "fault (env' FindOne) = None"
  shows "\<exists>c. fst (serve v conv env (PostApiConfig body) w)
            = \<lparr>status = 200, payload = ConfigDoc (Some c)\<rparr> \<and>
          fst (serve v conv env' GetApiConfig (snd (serve v conv env (PostApiConfig body) w)))
            = \<lparr>status = 200, payload = ConfigDoc (Some c)\<rparr> \<and>
          threshold c = Some n \<and> clock w \<le> lastUpdated c"
proof -
  define c where "c = (case configColl w of
             [] \<Rightarrow> \<lparr>threshold = Some n, lastUpdated = writeTime v env w\<rparr>
           | c0 # cs \<Rightarrow> c0\<lparr>threshold := Some n, lastUpdated := writeTime v env w\<rparr>)"
  let ?w' = "snd (serve v conv env (PostApiConfig body) w)"
  have cast: "castNumber conv (JNum n) = Inr (Some n)" by (simp add: castNumber_def)
  have post: "fst (serve v conv env (PostApiConfig body) w) = \<lparr>status = 200, payload = ConfigDoc (Some c)\<rparr>"
    and coll: "configColl ?w' = c # tl (configColl w)"
    and conn: "v = Serverless \<longrightarrow> isConnected ?w'"
    using postApiConfig_stores
        [where body = body and thr = "JNum n" and conv = conv and t = "Some n" and v = v
           and w = w and env = env and c = c] assms(1) cast assms(2,3) c_def
    by simp_all
  have conn': "v = PushChannel \<or> isConnected ?w' \<or> fault (env' Connect) = None"
    using conn by (cases v) simp_all
  have get: "fst (serve v conv env' GetApiConfig ?w') = \<lparr>status = 200, payload = ConfigDoc (Some c)\<rparr>"
    using getApiConfig_first [OF coll conn' assms(4)] .
  have "threshold c = Some n" "clock w \<le> lastUpdated c"
    by (simp_all add: c_def clock_le_writeTime split: list.splits)
  with post get show ?thesis by blast
qed

theorem threshold_round_trip_witness:
  "fst (serve Serverless convJs allOk GetApiConfig
      (snd (serve Serverless convJs allOk (PostApiConfig [''threshold'' \<mapsto> JNum 42]) emptyWorld)))
     = \<lparr>status = 200, payload = ConfigDoc (Some \<lparr>threshold = Some 42, lastUpdated = 1001\<rparr>)\<rparr> \<and>
   clock emptyWorld = 1000"
proof -
  have h: "[''threshold'' \<mapsto> JNum 42] ''threshold'' = Some (JNum 42)"
    "fault (allOk Connect) = None" "fault (allOk FindOneAndUpdate) = None"
    "fault (allOk FindOne) = None"
    by (simp_all add: allOk_def)
  have p: "fst (serve Serverless convJs allOk (PostApiConfig [''threshold'' \<mapsto> JNum 42]) emptyWorld)
     = \<lparr>status = 200, payload = ConfigDoc (Some \<lparr>threshold = Some 42, lastUpdated = 1001\<rparr>)\<rparr>"
    "clock emptyWorld = 1000"
    by (simp_all add: postApiConfig_def connectToDatabase_def Config_findOneAndUpdate_def
        castNumber_def await_def allOk_def emptyWorld_def resp_defs Let_def)
  show ?thesis
    using threshold_round_trip
      [where body = "[''threshold'' \<mapsto> JNum 42]" and n = 42 and v = Serverless
         and w = emptyWorld and env = allOk and env' = allOk and conv = convJs] h p
    by auto
qed

text \<open>
  C6, as the code has it. \<^verbatim>\<open>GET /api/config\<close> answers with the first stored Config
  document whenever one exists (both variants; connection available, \<^verbatim>\<open>findOne\<close>
  not failing). On an empty collection the serverless variant first creates the
  document with threshold 30 and answers with it, provided \<^verbatim>\<open>countDocuments\<close> and
  \<^verbatim>\<open>create\<close> do not fail; the route of the push-channel variant does not call
  \<^verbatim>\<open>initializeConfig\<close> and answers 200 with \<^verbatim>\<open>null\<close>, creating nothing.
\<close>

theorem getApiConfig_yields_config:
  "(configColl w = c0 # cs \<and> available v env w \<and> fault (env FindOne) = None \<longrightarrow>
      fst (serve v conv env GetApiConfig w) = \<lparr>status = 200, payload = ConfigDoc (Some c0)\<rparr>) \<and>
   (configColl w = [] \<and> available Serverless env w \<and> fault (env CountDocuments) = None \<and>
    fault (env Create) = None \<and> fault (env FindOne) = None \<longrightarrow>
      (\<exists>c. threshold c = Some 30 \<and> clock w \<le> lastUpdated c \<and>
         fst (serve Serverless conv env GetApiConfig w)
           = \<lparr>status = 200, payload = ConfigDoc (Some c)\<rparr> \<and>
         configColl (snd (serve Serverless conv env GetApiConfig w)) = [c])) \<and>
   (configColl w = [] \<and> fault (env FindOne) = None \<longrightarrow>
      fst (serve PushChannel conv env GetApiConfig w)
        = \<lparr>status = 200, payload = ConfigDoc None\<rparr> \<and>
      configColl (snd (serve PushChannel conv env GetApiConfig w)) = [])"
proof (intro conjI impI)
  assume "configColl w = c0 # cs \<and> available v env w \<and> fault (env FindOne) = None"
  then show "fst (serve v conv env GetApiConfig w)
      = \<lparr>status = 200, payload = ConfigDoc (Some c0)\<rparr>"
    using getApiConfig_first [of w c0 cs v env conv] by (simp add: available_def)
next
  assume a: "configColl w = [] \<and> available Serverless env w \<and> fault (env CountDocuments) = None \<and>
    fault (env Create) = None \<and> fault (env FindOne) = None"
  let ?c = "\<lparr>threshold = Some 30,
              lastUpdated = writeTime Serverless env w + elapsed (env CountDocuments)\<rparr>"
  have "fst (getApiConfig env w) = \<lparr>status = 200, payload = ConfigDoc (Some ?c)\<rparr> \<and>
         configColl (snd (getApiConfig env w)) = [?c]"
    using a getApiConfig_creates [of w env ?c] by (simp add: available_def)
  moreover have "clock w \<le> lastUpdated ?c"
    using clock_le_writeTime [of w Serverless env] by simp
  ultimately show "\<exists>c. threshold c = Some 30 \<and> clock w \<le> lastUpdated c \<and>
         fst (serve Serverless conv env GetApiConfig w)
           = \<lparr>status = 200, payload = ConfigDoc (Some c)\<rparr> \<and>
         configColl (snd (serve Serverless conv env GetApiConfig w)) = [c]"
    by (intro exI [of _ ?c]) simp
next
  assume "configColl w = [] \<and> fault (env FindOne) = None"
  then show "fst (serve PushChannel conv env GetApiConfig w)
        = \<lparr>status = 200, payload = ConfigDoc None\<rparr>"
    and "configColl (snd (serve PushChannel conv env GetApiConfig w)) = []"
    by (simp_all add: getApiConfig_push_def Config_findOne_def await_def resp_defs)
qed

theorem getApiConfig_yields_config_witness:
  "fst (serve Serverless convJs allOk GetApiConfig sampleWorld)
     = \<lparr>status = 200, payload = ConfigDoc (Some \<lparr>threshold = Some 28, lastUpdated = 800\<rparr>)\<rparr> \<and>
   fst (serve Serverless convJs allOk GetApiConfig emptyWorld)
     = \<lparr>status = 200, payload = ConfigDoc (Some \<lparr>threshold = Some 30, lastUpdated = 1002\<rparr>)\<rparr> \<and>
   configColl (snd (serve Serverless convJs allOk GetApiConfig emptyWorld))
     = [\<lparr>threshold = Some 30, lastUpdated = 1002\<rparr>]"
proof -
  have h: "configColl sampleWorld = [\<lparr>threshold = Some 28, lastUpdated = 800\<rparr>]"
    "available Serverless allOk sampleWorld" "available Serverless allOk emptyWorld"
    "fault (allOk FindOne) = None" "fault (allOk CountDocuments) = None"
    "fault (allOk Create) = None" "configColl emptyWorld = []"
    by (simp_all add: sampleWorld_def emptyWorld_def allOk_def available_def)
  have e: "fst (serve Serverless convJs allOk GetApiConfig emptyWorld)
     = \<lparr>status = 200, payload = ConfigDoc (Some \<lparr>threshold = Some 30, lastUpdated = 1002\<rparr>)\<rparr>"
    by (simp add: getApiConfig_def connectToDatabase_def initializeConfig_def op_defs resp_defs
        allOk_def emptyWorld_def Let_def)
  show ?thesis
    using getApiConfig_yields_config
        [of sampleWorld "\<lparr>threshold = Some 28, lastUpdated = 800\<rparr>" "[]" Serverless allOk convJs]
      getApiConfig_yields_config [of emptyWorld _ _ Serverless allOk convJs] h e
    by auto
qed

text \<open>
  C6 as written fails: on an empty Config collection the push-channel variant
  answers \<^verbatim>\<open>GET /api/config\<close> with status 200 and \<^verbatim>\<open>null\<close> and creates nothing; so
  does the serverless variant when \<^verbatim>\<open>countDocuments\<close> rejects inside
  \<^verbatim>\<open>initializeConfig\<close>, whose \<^verbatim>\<open>catch\<close> only logs the error.
\<close>

theorem getApiConfig_null_counterexample:
  "fst (serve PushChannel convJs allOk GetApiConfig emptyWorld)
     = \<lparr>status = 200, payload = ConfigDoc None\<rparr> \<and>
   configColl (snd (serve PushChannel convJs allOk GetApiConfig emptyWorld)) = [] \<and>
   fst (serve Serverless convJs countFails GetApiConfig emptyWorld)
     = \<lparr>status = 200, payload = ConfigDoc None\<rparr> \<and>
   configColl (snd (serve Serverless convJs countFails GetApiConfig emptyWorld)) = []"
  by (simp add: getApiConfig_def getApiConfig_push_def connectToDatabase_def
      initializeConfig_def op_defs resp_defs allOk_def countFails_def emptyWorld_def)

text \<open>
  C7, as the code has it. In the serverless variant a failed connect answers every
  \<^verbatim>\<open>/api\<close> route with status 500 and the error's message. In both variants, when the
  connection is available and the request gets as far as the storage operation of
  its route (\<^verbatim>\<open>find\<close>, \<^verbatim>\<open>findOne\<close>, \<^verbatim>\<open>findOneAndUpdate\<close>, \<^verbatim>\<open>save\<close>), a failure
  of that operation answers 500 with its message. A failure of \<^verbatim>\<open>countDocuments\<close>
  or \<^verbatim>\<open>create\<close> inside \<^verbatim>\<open>initializeConfig\<close> is not passed on: the read routes of
  the serverless variant answer 200 whenever the connection is available and their
  own operation does not fail.
\<close>

theorem storage_failures_surface:
  "(v = Serverless \<and> req \<noteq> GetRoot \<and> \<not> isConnected w \<and> fault (env Connect) = Some m \<longrightarrow>
      fst (serve v conv env req w) = \<lparr>status = 500, payload = Error m\<rparr>) \<and>
   (available v env w \<and> ownOp req = Some opn \<and> reaches conv req \<and> fault (env opn) = Some m \<longrightarrow>
      fst (serve v conv env req w) = \<lparr>status = 500, payload = Error m\<rparr>) \<and>
   ((req = GetApiData \<or> req = GetApiConfig \<or> req = GetApiEsp8266Config) \<and>
    available Serverless env w \<and> ownOp req = Some opn \<and> fault (env opn) = None \<longrightarrow>
      status (fst (serve Serverless conv env req w)) = 200)"
proof (intro conjI impI)
  assume "v = Serverless \<and> req \<noteq> GetRoot \<and> \<not> isConnected w \<and> fault (env Connect) = Some m"
  then show "fst (serve v conv env req w) = \<lparr>status = 500, payload = Error m\<rparr>"
    using serverless_connect_failure [of req w env m conv] by simp
next
  assume a: "available v env w \<and> ownOp req = Some opn \<and> reaches conv req \<and> fault (env opn) = Some m"
  show "fst (serve v conv env req w) = \<lparr>status = 500, payload = Error m\<rparr>"
  proof (cases v)
    case Serverless
    then show ?thesis using a own_failure_serverless [of req opn conv env m w]
      by (simp add: available_def)
  next
    case PushChannel
    then show ?thesis using a own_failure_push [of req opn conv env m w] by simp
  qed
next
  assume "(req = GetApiData \<or> req = GetApiConfig \<or> req = GetApiEsp8266Config) \<and>
    available Serverless env w \<and> ownOp req = Some opn \<and> fault (env opn) = None"
  then show "status (fst (serve Serverless conv env req w)) = 200"
    using read_route_status [of req w env opn conv] by (simp add: available_def)
qed

theorem storage_failures_surface_witness:
  "fst (serve Serverless convJs findOneFails GetApiConfig sampleWorld)
     = \<lparr>status = 500, payload = Error ''findOne timed out''\<rparr> \<and>
   fst (serve PushChannel convJs findOneFails GetApiEsp8266Config sampleWorld)
     = \<lparr>status = 500, payload = Error ''findOne timed out''\<rparr> \<and>
   status (fst (serve Serverless convJs countFails GetApiConfig sampleWorld)) = 200"
proof -
  have h: "available Serverless findOneFails sampleWorld" "available PushChannel findOneFails sampleWorld"
    "available Serverless countFails sampleWorld"
    "fault (findOneFails FindOne) = Some ''findOne timed out''"
    "fault (countFails FindOne) = None"
    by (simp_all add: available_def sampleWorld_def findOneFails_def countFails_def)
  show ?thesis
    using storage_failures_surface
        [where v = Serverless and req = GetApiConfig and w = sampleWorld and env = findOneFails
           and conv = convJs and opn = FindOne and m = "''findOne timed out''"]
      storage_failures_surface
        [where v = PushChannel and req = GetApiEsp8266Config and w = sampleWorld
           and env = findOneFails and conv = convJs and opn = FindOne
           and m = "''findOne timed out''"]
      storage_failures_surface
        [where v = Serverless and req = GetApiConfig and w = sampleWorld and env = countFails
           and conv = convJs and opn = FindOne] h
    by simp
qed

text \<open>
  C7 as written fails: \<^verbatim>\<open>countDocuments\<close> rejects while the serverless variant
  handles \<^verbatim>\<open>GET /api/config\<close> and \<^verbatim>\<open>GET /api/data\<close>, and both answer with status
  200.
\<close>

theorem swallowed_failure_counterexample:
  "fault (countFails CountDocuments) = Some ''countDocuments timed out'' \<and>
   fst (serve Serverless convJs countFails GetApiConfig sampleWorld)
     = \<lparr>status = 200, payload = ConfigDoc (Some \<lparr>threshold = Some 28, lastUpdated = 800\<rparr>)\<rparr> \<and>
   fst (serve Serverless convJs countFails GetApiData emptyWorld)
     = \<lparr>status = 200, payload = Readings []\<rparr>"
  by (simp add: getApiConfig_def getApiData_def connectToDatabase_def initializeConfig_def
      op_defs resp_defs countFails_def sampleWorld_def emptyWorld_def sortDesc_def)

text \<open>
  C8, as the code has it. The two write routes of both variants give the same
  response and leave the same collections, for every body, state and outcome of
  the storage operations, on a serverless instance that is connected (or connects
  at once, so that both read the same clock). The three read routes do so whenever
  a Config document is stored and the serverless connection is available. The
  serverless variant never emits an event.
\<close>

theorem variants_agree:
  "(connectedAtOnce env w \<and> (req = PostApiConfig body \<or> req = PostApiEsp8266Data body) \<or>
    available Serverless env w \<and> configColl w \<noteq> [] \<and>
      (req = GetApiData \<or> req = GetApiConfig \<or> req = GetApiEsp8266Config) \<longrightarrow>
      fst (serve Serverless conv env req w) = fst (serve PushChannel conv env req w) \<and>
      stored (snd (serve Serverless conv env req w))
        = stored (snd (serve PushChannel conv env req w))) \<and>
   emitted (snd (serve Serverless conv env req w)) = emitted w"
  using read_routes_agree [of w env req conv] write_routes_agree [of env w req body conv]
    serverless_emits_nothing [of conv env req w]
  by (auto simp: available_def)

theorem variants_agree_witness:
  "fst (serve Serverless convJs allOk (PostApiConfig [''threshold'' \<mapsto> JNum 42]) sampleWorld)
     = fst (serve PushChannel convJs allOk (PostApiConfig [''threshold'' \<mapsto> JNum 42]) sampleWorld) \<and>
   stored (snd (serve Serverless convJs allOk (PostApiConfig [''threshold'' \<mapsto> JNum 42]) sampleWorld))
     = stored (snd (serve PushChannel convJs allOk (PostApiConfig [''threshold'' \<mapsto> JNum 42]) sampleWorld)) \<and>
   fst (serve Serverless convJs allOk GetApiConfig sampleWorld)
     = fst (serve PushChannel convJs allOk GetApiConfig sampleWorld) \<and>
   emitted (snd (serve PushChannel convJs allOk (PostApiConfig [''threshold'' \<mapsto> JNum 42]) sampleWorld))
     = [ConfigUpdate (JNum 42)] \<and>
   emitted (snd (serve Serverless convJs allOk (PostApiConfig [''threshold'' \<mapsto> JNum 42]) sampleWorld))
     = []"
proof -
  have h: "connectedAtOnce allOk sampleWorld" "configColl sampleWorld \<noteq> []"
    "emitted sampleWorld = []" "available Serverless allOk sampleWorld"
    by (simp_all add: connectedAtOnce_def available_def sampleWorld_def)
  have e: "emitted (snd (serve PushChannel convJs allOk
      (PostApiConfig [''threshold'' \<mapsto> JNum 42]) sampleWorld)) = [ConfigUpdate (JNum 42)]"
    by (simp add: postApiConfig_push_def Config_findOneAndUpdate_def castNumber_def await_def
        io_emit_def allOk_def sampleWorld_def Let_def)
  show ?thesis
    using variants_agree
        [where env = allOk and w = sampleWorld and conv = convJs
           and req = "PostApiConfig [''threshold'' \<mapsto> JNum 42]"
           and body = "[''threshold'' \<mapsto> JNum 42]"]
      variants_agree
        [where env = allOk and w = sampleWorld and conv = convJs and req = GetApiConfig] h e
    by simp
qed

text \<open>
  C8 as written fails: on an empty Config collection \<^verbatim>\<open>GET /api/config\<close> of the
  serverless variant creates the default document and answers with it, while the
  push-channel variant answers \<^verbatim>\<open>null\<close> and stores nothing.
\<close>

theorem variants_differ_counterexample:
  "fst (serve Serverless convJs allOk GetApiConfig emptyWorld)
     = \<lparr>status = 200, payload = ConfigDoc (Some \<lparr>threshold = Some 30, lastUpdated = 1002\<rparr>)\<rparr> \<and>
   stored (snd (serve Serverless convJs allOk GetApiConfig emptyWorld))
     = ([], [\<lparr>threshold = Some 30, lastUpdated = 1002\<rparr>]) \<and>
   fst (serve PushChannel convJs allOk GetApiConfig emptyWorld)
     = \<lparr>status = 200, payload = ConfigDoc None\<rparr> \<and>
   stored (snd (serve PushChannel convJs allOk GetApiConfig emptyWorld)) = ([], [])"
  by (simp add: getApiConfig_def getApiConfig_push_def connectToDatabase_def
      initializeConfig_def op_defs resp_defs allOk_def emptyWorld_def stored_def Let_def)

text \<open>
  C9, as the code has it. A \<^verbatim>\<open>POST /api/config\<close> whose body has a \<^verbatim>\<open>threshold\<close>,
  whatever its value, is never answered with status 400. The value goes to the
  upsert, which casts it to the schema type Number: \<^verbatim>\<open>null\<close> and numbers are kept
  as they are. When the cast accepts the value (and the connection is available and
  the upsert does not fail), the cast value is stored as the threshold of the
  first Config document and that document is the answer; when the cast rejects
  the value, nothing is stored and the answer is status 500 with the cast error.
\<close>

theorem postApiConfig_present_threshold:
  assumes "body ''threshold'' = Some thr"
  shows "status (fst (serve v conv env (PostApiConfig body) w)) \<noteq> 400 \<and>
     (\<forall>t. castNumber conv thr = Inr t \<and> available v env w \<and>
           fault (env FindOneAndUpdate) = None \<longrightarrow>
        (\<exists>c. threshold c = t \<and>
           fst (serve v conv env (PostApiConfig body) w)
             = \<lparr>status = 200, payload = ConfigDoc (Some c)\<rparr> \<and>
           configColl (snd (serve v conv env (PostApiConfig body) w)) = c # tl (configColl w))) \<and>
     (\<forall>m. castNumber conv thr = Inl m \<longrightarrow>
        stored (snd (serve v conv env (PostApiConfig body) w)) = stored w \<and>
        (available v env w \<longrightarrow>
           fst (serve v conv env (PostApiConfig body) w) = \<lparr>status = 500, payload = Error m\<rparr>)) \<and>
     castNumber conv JNull = Inr None \<and>
     (\<forall>n. castNumber conv (JNum n) = Inr (Some n))"
proof (intro conjI allI impI)
  show "status (fst (serve v conv env (PostApiConfig body) w)) \<noteq> 400"
    using postApiConfig_not_400 [where body = body and thr = thr and v = v and conv = conv
        and env = env and w = w] assms by auto
next
  fix t
  assume a: "castNumber conv thr = Inr t \<and> available v env w \<and>
           fault (env FindOneAndUpdate) = None"
  define c where "c = (case configColl w of
             [] \<Rightarrow> \<lparr>threshold = t, lastUpdated = writeTime v env w\<rparr>
           | c0 # cs \<Rightarrow> c0\<lparr>threshold := t, lastUpdated := writeTime v env w\<rparr>)"
  have "fst (serve v conv env (PostApiConfig body) w) = \<lparr>status = 200, payload = ConfigDoc (Some c)\<rparr>"
    and "configColl (snd (serve v conv env (PostApiConfig body) w)) = c # tl (configColl w)"
    using postApiConfig_stores
        [where body = body and thr = thr and conv = conv and t = t and v = v
           and w = w and env = env and c = c] assms a c_def
    by (simp_all add: available_def)
  moreover have "threshold c = t" by (simp add: c_def split: list.splits)
  ultimately show "\<exists>c. threshold c = t \<and>
           fst (serve v conv env (PostApiConfig body) w)
             = \<lparr>status = 200, payload = ConfigDoc (Some c)\<rparr> \<and>
           configColl (snd (serve v conv env (PostApiConfig body) w)) = c # tl (configColl w)"
    by blast
next
  fix m assume m: "castNumber conv thr = Inl m"
  have f: "stored (snd (serve v conv env (PostApiConfig body) w)) = stored w \<and>
         (available v env w \<longrightarrow>
            fst (serve v conv env (PostApiConfig body) w) = \<lparr>status = 500, payload = Error m\<rparr>)"
    using postApiConfig_cast_fails
        [where body = body and thr = thr and conv = conv and m = m and v = v and env = env
           and w = w] assms m
    by simp
  show "stored (snd (serve v conv env (PostApiConfig body) w)) = stored w"
    using f by simp
  show "fst (serve v conv env (PostApiConfig body) w) = \<lparr>status = 500, payload = Error m\<rparr>"
    if "available v env w"
    using f that by simp
next
  show "castNumber conv JNull = Inr None" by (simp add: castNumber_def)
  show "castNumber conv (JNum n) = Inr (Some n)" for n by (simp add: castNumber_def)
qed

theorem postApiConfig_present_threshold_witness:
  "fst (serve Serverless convJs allOk (PostApiConfig [''threshold'' \<mapsto> JNull]) sampleWorld)
     = \<lparr>status = 200, payload = ConfigDoc (Some \<lparr>threshold = None, lastUpdated = 1000\<rparr>)\<rparr> \<and>
   status (fst (serve Serverless convJs allOk
       (PostApiConfig [''threshold'' \<mapsto> JStr ''hot'']) sampleWorld)) \<noteq> 400 \<and>
   stored (snd (serve Serverless convJs allOk
       (PostApiConfig [''threshold'' \<mapsto> JStr ''hot'']) sampleWorld)) = stored sampleWorld"
proof -
  have h: "[''threshold'' \<mapsto> JStr ''hot''] ''threshold'' = Some (JStr ''hot'')"
    "castNumber convJs (JStr ''hot'') = Inl ''Cast to Number failed for value hot''"
    by (simp_all add: castNumber_def castFailed_def digitValue_def)
  have n: "fst (serve Serverless convJs allOk (PostApiConfig [''threshold'' \<mapsto> JNull]) sampleWorld)
     = \<lparr>status = 200, payload = ConfigDoc (Some \<lparr>threshold = None, lastUpdated = 1000\<rparr>)\<rparr>"
    by (simp add: postApiConfig_def connectToDatabase_def Config_findOneAndUpdate_def
        castNumber_def await_def allOk_def resp_defs sampleWorld_def Let_def)
  show ?thesis
    using postApiConfig_present_threshold
        [where body = "[''threshold'' \<mapsto> JStr ''hot'']" and thr = "JStr ''hot''"
           and v = Serverless and conv = convJs and env = allOk and w = sampleWorld] h n
    by simp
qed

text \<open>
  C9 as written fails: the string \<^verbatim>\<open>hot\<close> is present, is not a number, and is not
  stored: the cast to Number rejects it, the answer is status 500 and the Config
  document keeps its threshold.
\<close>

theorem postApiConfig_cast_counterexample:
  "fst (serve Serverless convJs allOk (PostApiConfig [''threshold'' \<mapsto> JStr ''hot'']) sampleWorld)
     = \<lparr>status = 500, payload = Error ''Cast to Number failed for value hot''\<rparr> \<and>
   configColl (snd (serve Serverless convJs allOk
       (PostApiConfig [''threshold'' \<mapsto> JStr ''hot'']) sampleWorld))
     = [\<lparr>threshold = Some 28, lastUpdated = 800\<rparr>] \<and>
   fst (serve PushChannel convJs allOk (PostApiConfig [''threshold'' \<mapsto> JStr ''hot'']) sampleWorld)
     = \<lparr>status = 500, payload = Error ''Cast to Number failed for value hot''\<rparr>"
  by (simp add: postApiConfig_def postApiConfig_push_def connectToDatabase_def
      Config_findOneAndUpdate_def castNumber_def castFailed_def digitValue_def
      resp_defs sampleWorld_def)

text \<open>
  C10. The three read routes of the serverless variant never change the readings,
  and never change a Config collection that is not empty. On an empty Config
  collection they leave it empty or create the one document with threshold 30;
  they do create it, and so change the stored state, when the connection is
  available and \<^verbatim>\<open>countDocuments\<close> and \<^verbatim>\<open>create\<close> do not fail.
\<close>

theorem read_routes_create_config:
  assumes "req = GetApiData \<or> req = GetApiConfig \<or> req = GetApiEsp8266Config"
  shows "dataColl (snd (serve Serverless conv env req w)) = dataColl w \<and>
     (configColl w \<noteq> [] \<longrightarrow> configColl (snd (serve Serverless conv env req w)) = configColl w) \<and>
     (configColl w = [] \<longrightarrow>
        configColl (snd (serve Serverless conv env req w)) = [] \<or>
        configColl (snd (serve Serverless conv env req w))
          = [\<lparr>threshold = Some 30,
              lastUpdated = writeTime Serverless env w + elapsed (env CountDocuments)\<rparr>]) \<and>
     (configColl w = [] \<and> available Serverless env w \<and> fault (env CountDocuments) = None \<and>
      fault (env Create) = None \<longrightarrow>
        configColl (snd (serve Serverless conv env req w))
          = [\<lparr>threshold = Some 30,
              lastUpdated = writeTime Serverless env w + elapsed (env CountDocuments)\<rparr>] \<and>
        stored (snd (serve Serverless conv env req w)) \<noteq> stored w)"
proof -
  let ?w' = "snd (serve Serverless conv env req w)"
  let ?c = "\<lparr>threshold = Some 30,
              lastUpdated = writeTime Serverless env w + elapsed (env CountDocuments)\<rparr>"
  have init: "dataColl (initializeConfig env w1) = dataColl w \<and>
      (configColl w \<noteq> [] \<longrightarrow> configColl (initializeConfig env w1) = configColl w) \<and>
      (configColl w = [] \<longrightarrow> configColl (initializeConfig env w1) = [] \<or>
          configColl (initializeConfig env w1) = [?c]) \<and>
      (configColl w = [] \<and> fault (env CountDocuments) = None \<and> fault (env Create) = None \<longrightarrow>
          configColl (initializeConfig env w1) = [?c])"
    if "connectToDatabase env w = (Inr (), w1)" for w1
  proof -
    have w1: "dataColl w1 = dataColl w" "configColl w1 = configColl w"
      using that dataColl_connectToDatabase [of env w] configColl_connectToDatabase [of env w]
      by simp_all
    have k: "clock w1 = writeTime Serverless env w"
      using that by (auto simp: connectToDatabase_def await_def writeTime_def
          split: if_splits option.splits)
    have d: "defaultConfig env w1 = ?c" by (simp add: defaultConfig_def k)
    show ?thesis
      using initializeConfig_cases [of env w1] initializeConfig_creates [of w1 env] w1 d
        dataColl_initializeConfig [of env w1]
      by auto
  qed
  have conn: "\<exists>w1. connectToDatabase env w = (Inr (), w1)" if "available Serverless env w"
    using connect_ok [of w env] that by (auto simp: available_def)
  obtain r w1 where c: "connectToDatabase env w = (r, w1)" by fastforce
  note sw = serverless_read_world [OF assms c, of conv]
  have main: "dataColl ?w' = dataColl w \<and>
     (configColl w \<noteq> [] \<longrightarrow> configColl ?w' = configColl w) \<and>
     (configColl w = [] \<longrightarrow> configColl ?w' = [] \<or> configColl ?w' = [?c])"
  proof (cases r)
    case (Inl e)
    then show ?thesis using sw by (auto simp: stored_def)
  next
    case (Inr u)
    then show ?thesis using sw init [of w1] c by (auto simp: stored_def)
  qed
  have created: "configColl ?w' = [?c] \<and> stored ?w' \<noteq> stored w"
    if a: "configColl w = [] \<and> available Serverless env w \<and> fault (env CountDocuments) = None \<and>
      fault (env Create) = None"
  proof -
    have r: "r = Inr ()" using conn c a by auto
    have i: "configColl (initializeConfig env w1) = [?c]"
      using init [of w1] c r a by simp
    have "stored ?w' = stored (initializeConfig env w1)"
      using sw r by simp
    then show ?thesis using i a by (auto simp: stored_def)
  qed
  show ?thesis using main created by blast
qed

theorem read_routes_create_config_witness:
  "configColl emptyWorld = [] \<and>
   configColl (snd (serve Serverless convJs allOk GetApiData emptyWorld))
     = [\<lparr>threshold = Some 30, lastUpdated = 1002\<rparr>] \<and>
   configColl (snd (serve Serverless convJs allOk GetApiEsp8266Config emptyWorld))
     = [\<lparr>threshold = Some 30, lastUpdated = 1002\<rparr>] \<and>
   dataColl (snd (serve Serverless convJs allOk GetApiConfig sampleWorld)) = dataColl sampleWorld \<and>
   configColl (snd (serve Serverless convJs allOk GetApiConfig sampleWorld))
     = configColl sampleWorld"
proof -
  have h: "configColl emptyWorld = []" "available Serverless allOk emptyWorld"
    "fault (allOk CountDocuments) = None" "fault (allOk Create) = None"
    "writeTime Serverless allOk emptyWorld + elapsed (allOk CountDocuments) = 1002"
    "configColl sampleWorld \<noteq> []"
    by (simp_all add: emptyWorld_def sampleWorld_def allOk_def available_def writeTime_def)
  show ?thesis
    using read_routes_create_config [of GetApiData convJs allOk emptyWorld]
      read_routes_create_config [of GetApiEsp8266Config convJs allOk emptyWorld]
      read_routes_create_config [of GetApiConfig convJs allOk sampleWorld] h
    by simp
qed

end
